theory Spec2Isabelle
  imports Complex_Main "HOL-Library.Monad_Syntax" "HOL-Library.AList"
begin

section \<open>Conventions of the embedding\<close>

text \<open>
  The two modules are Python. Python floats are modelled as the reals (no rounding, no NaN,
  no infinities), Python ints as \<open>int\<close>. A call that raises an exception becomes the value
  \<open>None\<close> of an option type, and the \<open>do\<close> notation of the option monad threads it: the
  first \<open>None\<close> aborts the rest, as the exception would. Mutation of \<open>self\<close> and of the
  car-state object is explicit state passing.
\<close>

subsection \<open>Python primitives\<close>

text \<open>\<open>a / b\<close> on floats: raises ZeroDivisionError when \<open>b\<close> is zero.\<close>

definition py_div :: "real \<Rightarrow> real \<Rightarrow> real option" where
  "py_div a b = (if b = 0 then None else Some (a / b))"

text \<open>\<open>a % b\<close> on ints: the sign follows the divisor, as HOL's \<open>mod\<close>; raises on zero.\<close>

definition py_mod :: "int \<Rightarrow> int \<Rightarrow> int option" where
  "py_mod a b = (if b = 0 then None else Some (a mod b))"

text \<open>\<open>xs[i]\<close>: an index below zero counts from the end; out of range it raises IndexError.\<close>

definition py_nth :: "'a list \<Rightarrow> int \<Rightarrow> 'a option" where
  "py_nth xs i =
     (if 0 \<le> i \<and> i < int (length xs) then Some (xs ! nat i)
      else if i < 0 \<and> - int (length xs) \<le> i then Some (xs ! nat (int (length xs) + i))
      else None)"

text \<open>\<open>xs[-1]\<close> and \<open>xs[0]\<close>.\<close>

definition py_last :: "'a list \<Rightarrow> 'a option" where
  "py_last xs = (if xs = [] then None else Some (last xs))"

definition py_first :: "'a list \<Rightarrow> 'a option" where
  "py_first xs = (case xs of [] \<Rightarrow> None | x # _ \<Rightarrow> Some x)"

text \<open>\<open>round(x)\<close> of Python 3: to the nearest integer, a tie goes to the even one.\<close>

definition py_round :: "real \<Rightarrow> int" where
  "py_round x =
     (let f = \<lfloor>x\<rfloor>; d = x - of_int f
      in if d < 1 / 2 then f else if 1 / 2 < d then f + 1
         else if even f then f else f + 1)"

text \<open>\<open>int(x)\<close> on a float truncates towards zero.\<close>

definition py_int :: "real \<Rightarrow> int" where
  "py_int x = (if 0 \<le> x then \<lfloor>x\<rfloor> else \<lceil>x\<rceil>)"

text \<open>
  Modelled from the spec: \<open>clip\<close> of common.numpy_fast is not under src/. The spec writes
  it as a clamp between a lower and an upper bound: \<open>max(lo, min(hi, x))\<close>.
\<close>

definition clip :: "real \<Rightarrow> real \<Rightarrow> real \<Rightarrow> real" where
  "clip x lo hi = max lo (min hi x)"

text \<open>
  \<open>max(xs, key=f)\<close>: the first element whose key is maximal; raises ValueError on the
  empty list.
\<close>

definition py_max_key :: "('a \<Rightarrow> real) \<Rightarrow> 'a list \<Rightarrow> 'a option" where
  "py_max_key f xs =
     (case xs of [] \<Rightarrow> None
      | x # ys \<Rightarrow> Some (fold (\<lambda>y best. if f best < f y then y else best) ys x))"

text \<open>\<open>max([a, b, ...])\<close> on numbers.\<close>

definition py_max_list :: "('a :: linorder) list \<Rightarrow> 'a option" where
  "py_max_list xs = (case xs of [] \<Rightarrow> None | x # ys \<Rightarrow> Some (fold max ys x))"

text \<open>
  Modelled from the spec: \<open>interp\<close> of common.numpy_fast is not under src/. The spec calls
  it "standard piecewise-linear with edge clamping"; the definition follows the scalar case
  of the library function: \<open>hi\<close> is the number of leading breakpoints strictly below \<open>xv\<close>,
  the ends clamp to the first and last value, and an index out of range raises.
\<close>

definition interp :: "real \<Rightarrow> real list \<Rightarrow> real list \<Rightarrow> real option" where
  "interp xv xp fp =
     (let N = length xp; hi = length (takeWhile (\<lambda>p. p < xv) xp)
      in if hi = N then (if N = 0 then None else py_last fp)
         else if hi = 0 then py_first fp
         else if hi < length fp
           then Some ((xv - xp ! (hi - 1)) * (fp ! hi - fp ! (hi - 1)) / (xp ! hi - xp ! (hi - 1))
                      + fp ! (hi - 1))
           else None)"

section \<open>radard.py\<close>

subsection \<open>Vision to radar association\<close>

text \<open>
  Modelled from the spec: the class Cluster (radar_helpers) is not under src/. A cluster
  "exposes the same kinematic fields" as a track; the record holds the values its
  properties return within one tick.
\<close>

record cluster =
  dRel :: real
  yRel :: real
  vRel :: real
  vLead :: real
  vLeadK :: real
  aLeadK :: real
  aLeadTau :: real

text \<open>A vision lead hypothesis of modelV2.leadsV3: each field is a list read at index 0.\<close>

record lead_msg =
  x :: "real list"
  y :: "real list"
  v :: "real list"
  xStd :: "real list"
  yStd :: "real list"
  vStd :: "real list"
  prob :: real

text \<open>
  \<open>laplacian_cdf\<close>: the scale is clamped from below by 1e-4, then the division. The
  division is written with \<open>py_div\<close> so that a zero divisor would show as \<open>None\<close>.
\<close>

definition laplacian_cdf :: "real \<Rightarrow> real \<Rightarrow> real \<Rightarrow> real option" where
  "laplacian_cdf xv mu b =
     (let b' = max b (1 / 10000)
      in do { q \<leftarrow> py_div (- \<bar>xv - mu\<bar>) b'; Some (exp q) })"

text \<open>The inner function \<open>prob\<close> of \<open>match_vision_to_cluster\<close>.\<close>

definition prob_cluster :: "real \<Rightarrow> real \<Rightarrow> lead_msg \<Rightarrow> cluster \<Rightarrow> real option" where
  "prob_cluster v_ego offset_vision_dist lead c =
     do {
       xs0 \<leftarrow> py_first (xStd lead);
       prob_d \<leftarrow> laplacian_cdf (dRel c) offset_vision_dist xs0;
       y0 \<leftarrow> py_first (y lead);
       ys0 \<leftarrow> py_first (yStd lead);
       prob_y \<leftarrow> laplacian_cdf (yRel c) (- y0) ys0;
       v0 \<leftarrow> py_first (v lead);
       vs0 \<leftarrow> py_first (vStd lead);
       prob_v \<leftarrow> laplacian_cdf (vRel c + v_ego) v0 vs0;
       Some (prob_d * prob_y * prob_v)
     }"

text \<open>
  \<open>max(clusters, key=prob)\<close> calls \<open>prob\<close> on every cluster, so one raising call makes the
  whole \<open>max\<close> raise: the keys are computed first (\<open>those\<close> is \<open>None\<close> as soon as one key is),
  then the first cluster with the greatest key is taken.
\<close>

definition max_by_prob :: "(cluster \<Rightarrow> real option) \<Rightarrow> cluster list \<Rightarrow> cluster option" where
  "max_by_prob p clusters =
     do {
       keys \<leftarrow> those (map p clusters);
       kc \<leftarrow> py_max_key fst (zip keys clusters);
       Some (snd kc)
     }"

text \<open>
  \<open>match_vision_to_cluster\<close>: the outer option is the exception, the inner one is the
  Python value \<open>None\<close> returned when the match is not sane. \<open>RADAR_TO_CAMERA\<close>
  (selfdrive.config) is not under src/ and is a parameter.
\<close>

definition match_vision_to_cluster ::
  "real \<Rightarrow> real \<Rightarrow> lead_msg \<Rightarrow> cluster list \<Rightarrow> cluster option option" where
  "match_vision_to_cluster RADAR_TO_CAMERA v_ego lead clusters =
     do {
       x0 \<leftarrow> py_first (x lead);
       let offset_vision_dist = x0 - RADAR_TO_CAMERA;
       c \<leftarrow> max_by_prob (prob_cluster v_ego offset_vision_dist lead) clusters;
       let dist_sane = \<bar>dRel c - offset_vision_dist\<bar> < max (offset_vision_dist * (25 / 100)) 5;
       v0 \<leftarrow> py_first (v lead);
       let vel_sane = (\<bar>vRel c + v_ego - v0\<bar> < 10) \<or> (v_ego + vRel c > 3);
       if dist_sane \<and> vel_sane then Some (Some c) else Some None
     }"


subsection \<open>Lead records and the long-range smoothing filter\<close>

text \<open>
  A lead is a Python dict. The record has the keys the code under src/ reads or writes; it
  extends \<open>cluster\<close>, whose seven kinematic fields the dict repeats. The dict of a lead
  with status false has the keys \<open>status\<close> and \<open>source\<close> only: the code reads no other key
  of it, and the record holds unread values there. The keys \<open>dPath\<close> and \<open>vLat\<close> are set by
  \<open>get_path_adjacent_leads\<close> only.
\<close>

record lead = cluster +
  status :: bool
  modelProb :: real
  source :: string
  checkSource :: string
  dPath :: real
  vLat :: real

text \<open>
  Modelled from the spec: \<open>Cluster.get_RadarState\<close> (radar_helpers) is not under src/. It
  returns the lead dict of a cluster: the cluster's kinematic fields, status true, and the
  source tags it is given.
\<close>

definition get_RadarState :: "cluster \<Rightarrow> real \<Rightarrow> string \<Rightarrow> string \<Rightarrow> lead" where
  "get_RadarState c model_prob src chk =
     \<lparr>dRel = dRel c, yRel = yRel c, vRel = vRel c, vLead = vLead c, vLeadK = vLeadK c,
      aLeadK = aLeadK c, aLeadTau = aLeadTau c,
      status = True, modelProb = model_prob, source = src, checkSource = chk,
      dPath = 0, vLat = 0\<rparr>"

text \<open>
  Modelled from the spec: the class FirstOrderFilter (common.filter_simple) is not under
  src/. The spec describes "first-order filters, each with an initialized flag and a
  time-varying smoothing coefficient": \<open>update_alpha\<close> sets the coefficient from the time
  constant \<open>rc\<close> (a division, which raises on a zero divisor), \<open>update\<close> seeds the value on
  the first sample after a reset and blends afterwards.
\<close>

record first_order_filter =
  fof_x :: real
  fof_dt :: real
  fof_alpha :: real
  initialized :: bool

definition update_alpha :: "first_order_filter \<Rightarrow> real \<Rightarrow> first_order_filter option" where
  "update_alpha f rc =
     do { a \<leftarrow> py_div (fof_dt f) (rc + fof_dt f); Some (f\<lparr>fof_alpha := a\<rparr>) }"

definition fof_update :: "first_order_filter \<Rightarrow> real \<Rightarrow> first_order_filter" where
  "fof_update f xv =
     (if initialized f then f\<lparr>fof_x := (1 - fof_alpha f) * fof_x f + fof_alpha f * xv\<rparr>
      else f\<lparr>initialized := True, fof_x := xv\<rparr>)"

text \<open>The class LongRangeLead: six filters and the last lead seen.\<close>

record long_range_lead =
  f_dRel :: first_order_filter
  f_vRel :: first_order_filter
  f_vLead :: first_order_filter
  f_vLeadK :: first_order_filter
  f_aLeadK :: first_order_filter
  f_aLeadTau :: first_order_filter
  lead_last :: "lead option"

definition DREL_BP :: "real list" where
  "DREL_BP = [145, 152]"

definition D_DREL_MAX_V :: "real list" where
  "D_DREL_MAX_V = [8, 20]"

definition ALPHA_V :: "real list" where
  "ALPHA_V = [0, 1]"

definition D_YREL_MAX :: real where
  "D_YREL_MAX = 8 / 10"

definition LongRangeLead_reset :: "long_range_lead \<Rightarrow> long_range_lead" where
  "LongRangeLead_reset self =
     self\<lparr>lead_last := None,
          f_dRel := (f_dRel self)\<lparr>initialized := False\<rparr>,
          f_vRel := (f_vRel self)\<lparr>initialized := False\<rparr>,
          f_vLead := (f_vLead self)\<lparr>initialized := False\<rparr>,
          f_vLeadK := (f_vLeadK self)\<lparr>initialized := False\<rparr>,
          f_aLeadK := (f_aLeadK self)\<lparr>initialized := False\<rparr>,
          f_aLeadTau := (f_aLeadTau self)\<lparr>initialized := False\<rparr>\<rparr>"

text \<open>
  The reset condition of \<open>update\<close> (lines 287 to 290), with Python's short-circuit order:
  the comparison with the last lead is evaluated only when the first two disjuncts fail.
\<close>

definition reset_needed :: "long_range_lead \<Rightarrow> lead \<Rightarrow> bool option" where
  "reset_needed self ld =
     (if checkSource ld = ''modelLead'' \<or> dRel ld < DREL_BP ! 0 then Some True
      else case lead_last self of
             None \<Rightarrow> Some False
           | Some l \<Rightarrow>
               if status l then
                 do {
                   m \<leftarrow> interp (dRel ld) DREL_BP D_DREL_MAX_V;
                   Some (\<bar>dRel l - dRel ld\<bar> > m \<or> \<bar>yRel l - yRel ld\<bar> > D_YREL_MAX)
                 }
               else Some False)"

text \<open>The twelve filter calls of lines 293 to 304.\<close>

definition filter_lead :: "long_range_lead \<Rightarrow> real \<Rightarrow> lead \<Rightarrow> long_range_lead option" where
  "filter_lead self alpha ld =
     do {
       a1 \<leftarrow> update_alpha (f_dRel self) alpha;
       a2 \<leftarrow> update_alpha (f_vRel self) alpha;
       a3 \<leftarrow> update_alpha (f_vLead self) alpha;
       a4 \<leftarrow> update_alpha (f_vLeadK self) alpha;
       a5 \<leftarrow> update_alpha (f_aLeadK self) alpha;
       a6 \<leftarrow> update_alpha (f_aLeadTau self) alpha;
       Some (self\<lparr>f_dRel := fof_update a1 (dRel ld),
                  f_vRel := fof_update a2 (vRel ld),
                  f_vLead := fof_update a3 (vLead ld),
                  f_vLeadK := fof_update a4 (vLeadK ld),
                  f_aLeadK := fof_update a5 (aLeadK ld),
                  f_aLeadTau := fof_update a6 (aLeadTau ld)\<rparr>)
     }"

text \<open>
  \<open>LongRangeLead.update\<close>. The source stores the dict in \<open>lead_last\<close> and then writes the
  filtered values into the same dict, so \<open>lead_last\<close> sees them too: the model stores the
  returned lead.
\<close>

definition LongRangeLead_update ::
  "long_range_lead \<Rightarrow> lead \<Rightarrow> (lead \<times> long_range_lead) option" where
  "LongRangeLead_update self ld =
     do {
       self1 \<leftarrow>
         (if \<not> status ld then Some (LongRangeLead_reset self)
          else do {
            r \<leftarrow> reset_needed self ld;
            let self0 = (if r then LongRangeLead_reset self else self);
            alpha \<leftarrow> interp (dRel ld) DREL_BP ALPHA_V;
            filter_lead self0 alpha ld
          });
       let ld' =
         (if status ld \<and> checkSource ld \<noteq> ''modelLead''
          then ld\<lparr>dRel := fof_x (f_dRel self1), vRel := fof_x (f_vRel self1),
                   vLead := fof_x (f_vLead self1), vLeadK := fof_x (f_vLeadK self1),
                   aLeadK := fof_x (f_aLeadK self1), aLeadTau := fof_x (f_aLeadTau self1)\<rparr>
          else ld);
       Some (ld', self1\<lparr>lead_last := Some ld'\<rparr>)
     }"

text \<open>The filters of a constructed LongRangeLead all carry the radar time step, which is positive.\<close>

definition filters_ok :: "long_range_lead \<Rightarrow> bool" where
  "filters_ok self \<longleftrightarrow>
     0 < fof_dt (f_dRel self) \<and> 0 < fof_dt (f_vRel self) \<and> 0 < fof_dt (f_vLead self) \<and>
     0 < fof_dt (f_vLeadK self) \<and> 0 < fof_dt (f_aLeadK self) \<and> 0 < fof_dt (f_aLeadTau self)"


subsection \<open>Path-adjacent leads\<close>

text \<open>
  The vision model message \<open>modelV2\<close>, with the fields \<open>get_path_adjacent_leads\<close> reads: the
  predicted path \<open>position.x\<close>, \<open>position.y\<close>, the lane lines as pairs \<open>(x, y)\<close> and their
  probabilities.
\<close>

record model_v2 =
  position_x :: "real list"
  position_y :: "real list"
  laneLines :: "(real list \<times> real list) list"
  laneLineProbs :: "real list"

definition MIN_LANE_PROB :: real where
  "MIN_LANE_PROB = 6 / 10"

text \<open>
  \<open>np.array(a) + np.array(b)\<close> on one-dimensional arrays: elementwise when the lengths agree,
  an array of length one is broadcast, any other pair of lengths raises.
\<close>

definition np_add :: "real list \<Rightarrow> real list \<Rightarrow> real list option" where
  "np_add a b =
     (if length a = length b then Some (map2 (+) a b)
      else if length a = 1 then Some (map (\<lambda>t. hd a + t) b)
      else if length b = 1 then Some (map (\<lambda>t. t + hd b) a)
      else None)"

text \<open>
  Lines 165 to 183: the centre line from the lane lines. The result \<open>Some None\<close> is the
  Python value \<open>c_y = None\<close>; otherwise the pair is \<open>(ll_x, c_y)\<close>. \<open>TRAJECTORY_SIZE\<close>
  (lane_planner) is not under src/ and is a parameter.
\<close>

definition lane_center ::
  "nat \<Rightarrow> model_v2 option \<Rightarrow> real \<Rightarrow> (real list \<times> real list) option option" where
  "lane_center TRAJECTORY_SIZE md lane_width =
     (case md of
        None \<Rightarrow> Some None
      | Some m \<Rightarrow>
          if lane_width > 0 \<and> length (laneLines m) = 4
             \<and> length (fst (laneLines m ! 1)) = TRAJECTORY_SIZE
          then
            let ll_x = fst (laneLines m ! 1);
                lll_y = snd (laneLines m ! 1);
                rll_y = snd (laneLines m ! 2)
            in do {
              l_prob \<leftarrow> py_nth (laneLineProbs m) 1;
              r_prob \<leftarrow> py_nth (laneLineProbs m) 2;
              if l_prob > MIN_LANE_PROB \<and> r_prob > MIN_LANE_PROB then
                do { s \<leftarrow> np_add lll_y rll_y; Some (Some (ll_x, map (\<lambda>t. t / 2) s)) }
              else if l_prob > MIN_LANE_PROB then
                Some (Some (ll_x, map (\<lambda>t. t + lane_width / 2) lll_y))
              else if r_prob > MIN_LANE_PROB then
                Some (Some (ll_x, map (\<lambda>t. t - lane_width / 2) rll_y))
              else Some None
            }
          else Some None)"

text \<open>
  Lines 196 to 210 for one cluster: the lateral offset \<open>dPath\<close> from the best reference and
  the lead dict with \<open>dPath\<close> and \<open>vLat\<close> set. \<open>md_x[-1]\<close> is read first in every case.
\<close>

definition path_lead ::
  "real list \<Rightarrow> real list \<Rightarrow> (real list \<times> real list) option \<Rightarrow> cluster \<Rightarrow> lead option" where
  "path_lead md_x md_y cy c =
     do {
       mx \<leftarrow> py_last md_x;
       use_path \<leftarrow>
         (if dRel c \<le> mx then Some True
          else case cy of
                 None \<Rightarrow> Some False
               | Some (ll_x, c_y) \<Rightarrow>
                   do { lx \<leftarrow> py_last ll_x; Some (mx - dRel c < lx - dRel c) });
       (dp, chk) \<leftarrow>
         (if use_path then
            do { p \<leftarrow> interp (dRel c) md_x md_y; Some (- yRel c - p, ''modelPath'') }
          else case cy of
                 Some (ll_x, c_y) \<Rightarrow>
                   do { p \<leftarrow> interp (dRel c) ll_x c_y; Some (- yRel c - p, ''modelLaneLines'') }
               | None \<Rightarrow> Some (- yRel c, ''lowSpeedOverride''));
       let src = (if dRel c > 145 then ''vision'' else ''radar'');
       let ld = get_RadarState c 0 src chk;
       Some (ld\<lparr>dPath := dp, vLat := sqrt ((10 * dp)\<^sup>2 + (dRel c)\<^sup>2)\<rparr>)
     }"

text \<open>
  Lines 211 to 216: the three dicts \<open>leads_left\<close>, \<open>leads_center\<close>, \<open>leads_right\<close>, keyed by
  \<open>abs(dPath)\<close>. A Python dict keeps insertion order, and an assignment to a key that is
  present replaces its value in place: that is \<open>AList.update\<close> on an association list.
\<close>

type_synonym lead_dict = "(real \<times> lead) list"

definition bucket_lead ::
  "real \<Rightarrow> lead \<Rightarrow> lead_dict \<times> lead_dict \<times> lead_dict \<Rightarrow> lead_dict \<times> lead_dict \<times> lead_dict" where
  "bucket_lead half_lane_width ld b =
     (case b of (leads_left, leads_center, leads_right) \<Rightarrow>
        if \<bar>dPath ld\<bar> < half_lane_width \<and> vLeadK ld > - 1
          then (leads_left, AList.update \<bar>dPath ld\<bar> ld leads_center, leads_right)
        else if dPath ld < 0
          then (AList.update \<bar>dPath ld\<bar> ld leads_left, leads_center, leads_right)
        else (leads_left, leads_center, AList.update \<bar>dPath ld\<bar> ld leads_right))"

text \<open>The loop over the clusters (line 195).\<close>

fun bucket_clusters ::
  "real list \<Rightarrow> real list \<Rightarrow> (real list \<times> real list) option \<Rightarrow> real \<Rightarrow> cluster list
   \<Rightarrow> lead_dict \<times> lead_dict \<times> lead_dict \<Rightarrow> (lead_dict \<times> lead_dict \<times> lead_dict) option" where
  "bucket_clusters md_x md_y cy hlw [] b = Some b"
| "bucket_clusters md_x md_y cy hlw (c # cs) b =
     do {
       ld \<leftarrow> path_lead md_x md_y cy c;
       bucket_clusters md_x md_y cy hlw cs (bucket_lead hlw ld b)
     }"

text \<open>\<open>[l[k] for k in sorted(list(l.keys()))]\<close>: the values in the order of their keys.\<close>

definition by_sorted_keys :: "lead_dict \<Rightarrow> lead list" where
  "by_sorted_keys l = map snd (sort_key fst l)"

text \<open>
  \<open>get_path_adjacent_leads\<close>. With \<open>md\<close> not \<open>None\<close> the condition of line 185 holds at its
  first disjunct; with \<open>md = None\<close> its second disjunct reads \<open>md.position\<close> and raises.
  \<open>sorted\<close> is stable, as \<open>sort_key\<close> is. The argument \<open>v_ego\<close> is not used by the source.
\<close>

definition get_path_adjacent_leads ::
  "nat \<Rightarrow> real \<Rightarrow> model_v2 option \<Rightarrow> real \<Rightarrow> cluster list
   \<Rightarrow> (lead list \<times> lead list \<times> lead list) option" where
  "get_path_adjacent_leads TRAJECTORY_SIZE v_ego md lane_width clusters =
     (if length clusters = 0 then Some ([], [], [])
      else do {
        cy \<leftarrow> lane_center TRAJECTORY_SIZE md lane_width;
        m \<leftarrow> md;
        let md_y = position_y m;
        let md_x = position_x m;
        let half_lane_width = lane_width / 2;
        (leads_left, leads_center, leads_right) \<leftarrow>
          bucket_clusters md_x md_y cy half_lane_width clusters ([], [], []);
        let ll = by_sorted_keys leads_left;
        let lr = by_sorted_keys leads_right;
        let lc = sort_key dRel (map snd leads_center);
        Some (ll, lc, lr)
      })"

subsection \<open>The track table and the clustering\<close>

text \<open>
  The classes Track and Cluster (radar_helpers) and the function \<open>cluster_points_centroid\<close>
  (fastcluster_py) are not under src/. A track is a value of a type parameter, and the
  record \<open>track_ops\<close> holds the operations \<open>RadarD.update\<close> calls on tracks and clusters:
  the constructor \<open>Track(v_lead, kalman_params)\<close>, \<open>Track.update\<close>,
  \<open>get_key_for_cluster\<close>, the field \<open>cnt\<close>, \<open>reset_a_lead\<close>, and the properties
  \<open>aLeadK\<close> and \<open>aLeadTau\<close> of a cluster as functions of its member tracks.
\<close>

record 'track track_ops =
  Track :: "real \<Rightarrow> 'track"
  track_update :: "'track \<Rightarrow> real \<Rightarrow> real \<Rightarrow> real \<Rightarrow> real \<Rightarrow> bool \<Rightarrow> 'track"
  get_key_for_cluster :: "'track \<Rightarrow> real list"
  cnt :: "'track \<Rightarrow> int"
  reset_a_lead :: "'track \<Rightarrow> real \<Rightarrow> real \<Rightarrow> 'track"
  cluster_aLeadK :: "'track list \<Rightarrow> real"
  cluster_aLeadTau :: "'track list \<Rightarrow> real"

text \<open>A radar point of \<open>rr.points\<close>.\<close>

record radar_point =
  trackId :: int
  pt_dRel :: real
  pt_yRel :: real
  pt_vRel :: real
  measured :: bool

text \<open>The fields of the SubMaster \<open>sm\<close> that lines 342 to 348 read.\<close>

record sub_master =
  logMonoTime :: "int list"
  updated_carState :: bool
  carState_vEgo :: real
  updated_modelV2 :: bool

text \<open>
  The state of RadarD that the track stage reads or writes. \<open>tracks\<close> is a dict from track
  id to Track object, in insertion order. \<open>v_ego_hist\<close> is a deque of at most \<open>delay + 1\<close>
  entries.
\<close>

record 'track radard =
  current_time :: real
  tracks :: "(int \<times> 'track) list"
  v_ego :: real
  v_ego_hist :: "real list"
  delay :: nat
  ready :: bool

text \<open>\<open>deque.append\<close> with \<open>maxlen\<close>: a full deque drops its oldest entry.\<close>

definition deque_append :: "nat \<Rightarrow> real list \<Rightarrow> real \<Rightarrow> real list" where
  "deque_append maxlen d a =
     (let d' = d @ [a] in drop (length d' - maxlen) d')"

text \<open>Lines 350 to 352: the dict \<open>ar_pts\<close>; a later point with the same id replaces the earlier.\<close>

definition ar_pts_of :: "radar_point list \<Rightarrow> (int \<times> real \<times> real \<times> real \<times> bool) list" where
  "ar_pts_of pts =
     fold (\<lambda>pt m. AList.update (trackId pt) (pt_dRel pt, pt_yRel pt, pt_vRel pt, measured pt) m)
       pts []"

text \<open>Lines 355 to 357: every track whose id is not a key of \<open>ar_pts\<close> is popped.\<close>

definition remove_missing ::
  "(int \<times> real \<times> real \<times> real \<times> bool) list \<Rightarrow> (int \<times> 'track) list \<Rightarrow> (int \<times> 'track) list" where
  "remove_missing ar_pts trks = filter (\<lambda>kt. map_of ar_pts (fst kt) \<noteq> None) trks"

text \<open>
  Lines 360 to 369, one iteration: \<open>v_ego_hist[0]\<close> raises on an empty deque; a track is
  created when its id is new, then updated.
\<close>

definition compute_track ::
  "'track track_ops \<Rightarrow> real list \<Rightarrow> int \<times> real \<times> real \<times> real \<times> bool
   \<Rightarrow> (int \<times> 'track) list \<Rightarrow> (int \<times> 'track) list option" where
  "compute_track ops hist p trks =
     (case p of (ids, d, yr, vr, meas) \<Rightarrow>
        do {
          h0 \<leftarrow> py_first hist;
          let v_lead = vr + h0;
          let trks1 = (case map_of trks ids of
                         None \<Rightarrow> AList.update ids (Track ops v_lead) trks
                       | Some _ \<Rightarrow> trks);
          t \<leftarrow> map_of trks1 ids;
          Some (AList.update ids (track_update ops t d yr vr v_lead meas) trks1)
        })"

text \<open>A loop whose body may raise: the first \<open>None\<close> ends it.\<close>

fun fold_opt :: "('a \<Rightarrow> 's \<Rightarrow> 's option) \<Rightarrow> 'a list \<Rightarrow> 's \<Rightarrow> 's option" where
  "fold_opt f [] s = Some s"
| "fold_opt f (a # as) s = do { s' \<leftarrow> f a s; fold_opt f as s' }"

text \<open>
  Lines 374 to 390. A cluster is the list of the ids of its member tracks: the Cluster
  object holds references to the Track objects of the table, not copies. The list
  \<open>clusters\<close> starts as \<open>[None] * (max(cluster_idxs) + 1)\<close>. The clustering primitive is a
  parameter that may not return (\<open>None\<close>): it is called only when there are at least two
  points. With no point, \<open>cluster_idxs\<close> is unbound in the source and never read.
\<close>

definition add_to_cluster ::
  "nat list \<Rightarrow> int list \<Rightarrow> nat \<Rightarrow> int list option list \<Rightarrow> int list option list option" where
  "add_to_cluster cluster_idxs idens idx clusters =
     (if idx < length cluster_idxs then
        let cluster_i = cluster_idxs ! idx
        in if cluster_i < length clusters \<and> idx < length idens then
             Some (clusters[cluster_i :=
                     Some ((case clusters ! cluster_i of None \<Rightarrow> [] | Some c \<Rightarrow> c) @ [idens ! idx])])
           else None
      else None)"

definition cluster_tracks ::
  "(real list list \<Rightarrow> real \<Rightarrow> nat list option) \<Rightarrow> real list list \<Rightarrow> int list
   \<Rightarrow> (nat list \<times> int list option list) option" where
  "cluster_tracks cluster_points_centroid track_pts idens =
     (if length track_pts > 1 then
        do {
          cluster_idxs \<leftarrow> cluster_points_centroid track_pts (5 / 2);
          m \<leftarrow> py_max_list cluster_idxs;
          let clusters0 = replicate (m + 1) None;
          clusters \<leftarrow> fold_opt (add_to_cluster cluster_idxs idens) [0 ..< length track_pts] clusters0;
          Some (cluster_idxs, clusters)
        }
      else if length track_pts = 1 then
        do { i0 \<leftarrow> py_first idens; Some ([0], [Some [i0]]) }
      else Some ([], []))"

text \<open>
  Lines 393 to 397, one iteration: a track seen at most once takes the acceleration of its
  cluster, computed from the member tracks as they are in the table at that moment.
\<close>

definition reset_new_track ::
  "'track track_ops \<Rightarrow> nat list \<Rightarrow> int list \<Rightarrow> int list option list \<Rightarrow> nat
   \<Rightarrow> (int \<times> 'track) list \<Rightarrow> (int \<times> 'track) list option" where
  "reset_new_track ops cluster_idxs idens clusters idx trks =
     do {
       iden \<leftarrow> (if idx < length idens then Some (idens ! idx) else None);
       t \<leftarrow> map_of trks iden;
       if cnt ops t \<le> 1 then
         do {
           ci \<leftarrow> (if idx < length cluster_idxs then Some (cluster_idxs ! idx) else None);
           c \<leftarrow> (if ci < length clusters then clusters ! ci else None);
           members \<leftarrow> those (map (map_of trks) c);
           Some (AList.update iden
                   (reset_a_lead ops t (cluster_aLeadK ops members) (cluster_aLeadTau ops members))
                   trks)
         }
       else Some trks
     }"

text \<open>
  \<open>RadarD.update\<close>, lines 342 to 397: the tick up to the point where the radarState message
  is built. The rest of the method reads \<open>self.tracks\<close> and the clusters and writes neither.
  The result is the new state and the list \<open>clusters\<close>.
\<close>

definition RadarD_update ::
  "'track track_ops \<Rightarrow> (real list list \<Rightarrow> real \<Rightarrow> nat list option) \<Rightarrow> 'track radard
   \<Rightarrow> sub_master \<Rightarrow> radar_point list \<Rightarrow> ('track radard \<times> int list option list) option" where
  "RadarD_update ops cluster_points_centroid self sm rr_points =
     do {
       mt \<leftarrow> py_max_list (map real_of_int (logMonoTime sm));
       let self1 = self\<lparr>current_time := mt / 1000000000\<rparr>;
       let self2 = (if updated_carState sm
                    then self1\<lparr>v_ego := carState_vEgo sm,
                               v_ego_hist := deque_append (delay self1 + 1) (v_ego_hist self1)
                                               (carState_vEgo sm)\<rparr>
                    else self1);
       let self3 = (if updated_modelV2 sm then self2\<lparr>ready := True\<rparr> else self2);
       let ar_pts = ar_pts_of rr_points;
       let trks1 = remove_missing ar_pts (tracks self3);
       trks2 \<leftarrow> fold_opt (compute_track ops (v_ego_hist self3)) ar_pts trks1;
       let idens = sort (map fst trks2);
       track_pts \<leftarrow> those (map (\<lambda>iden. map_option (get_key_for_cluster ops) (map_of trks2 iden)) idens);
       (cluster_idxs, clusters) \<leftarrow> cluster_tracks cluster_points_centroid track_pts idens;
       trks3 \<leftarrow> fold_opt (reset_new_track ops cluster_idxs idens clusters)
                  [0 ..< length track_pts] trks2;
       Some (self3\<lparr>tracks := trks3\<rparr>, clusters)
     }"


section \<open>carcontroller.py\<close>

subsection \<open>Data\<close>

text \<open>\<open>CS.out\<close>: the car-state message.\<close>

record out_state =
  vEgo :: real
  aEgo :: real
  steerWarning :: bool
  steerError :: bool
  steeringTorque :: real
  gasPressed :: bool
  gearShifter :: string
  brake :: real
  cruiseState_enabled :: bool

text \<open>
  \<open>CS\<close>: the car-state object, with every attribute \<open>update\<close> reads or writes. \<open>CS.vEgo\<close> is
  a field of its own, next to \<open>CS.out.vEgo\<close>; it is named \<open>CS_vEgo\<close> here.
  \<open>follow_level\<close> is the value \<open>CS.get_follow_level()\<close> returns.
\<close>

record car_state =
  out :: out_state
  lka_steering_cmd_counter :: int
  pause_long_on_gas_press :: bool
  lkMode :: bool
  lane_change_steer_factor :: real
  one_pedal_mode_active :: bool
  one_pedal_mode_op_braking_allowed :: bool
  coast_one_pedal_mode_active :: bool
  CS_vEgo :: real
  engineRPM :: real
  coasting_lead_v :: real
  coasting_lead_d :: real
  tr :: real
  lead_v_rel_long_gas_lockout_bp :: "real list"
  lead_v_rel_long_gas_lockout_v :: "real list"
  lead_v_long_gas_lockout_bp :: "real list"
  lead_v_long_gas_lockout_v :: "real list"
  lead_ttc_long_gas_lockout_bp :: "real list"
  lead_ttc_long_gas_lockout_v :: "real list"
  lead_tr_long_gas_lockout_bp :: "real list"
  lead_tr_long_gas_lockout_v :: "real list"
  lead_d_long_gas_lockout_bp :: "real list"
  lead_d_long_gas_lockout_v :: "real list"
  lead_v_rel_long_brake_lockout_bp :: "real list"
  lead_v_rel_long_brake_lockout_v :: "real list"
  lead_v_long_brake_lockout_bp :: "real list"
  lead_v_long_brake_lockout_v :: "real list"
  lead_ttc_long_brake_lockout_bp :: "real list"
  lead_ttc_long_brake_lockout_v :: "real list"
  lead_tr_long_brake_lockout_bp :: "real list"
  lead_tr_long_brake_lockout_v :: "real list"
  lead_d_long_brake_lockout_bp :: "real list"
  lead_d_long_brake_lockout_v :: "real list"
  gear_shifter_ev :: int
  one_pedal_dl_coasting_enabled :: bool
  pitch :: real
  one_pedal_brake_mode :: int
  angle_steers :: real
  one_pedal_angle_steers_cutoff_bp :: "real list"
  coasting_enabled :: bool
  coasting_long_plan :: string
  speed_limit :: real
  speed_limit_active :: bool
  v_cruise_kph :: real
  coasting_over_speed_vEgo_BP_BP :: "real list"
  coasting_over_speed_vEgo_BP :: "real list list"
  coasting_over_speed_regen_vEgo_BP :: "real list list"
  coasting_brake_over_speed_enabled :: bool
  no_friction_braking :: bool
  one_pedal_mode_active_last :: bool
  coast_one_pedal_mode_active_last :: bool
  brake_cmd :: int
  showBrakeIndicator :: bool
  apply_brake_percent :: real
  hvb_wattage :: real
  hvb_wattage_bp :: "real list"
  is_ev :: bool
  cruiseMain :: bool
  autoHold :: bool
  autoHoldActive :: bool
  regenPaddlePressed :: bool
  pcm_acc_status :: int
  autoHoldActivated :: bool
  do_sng :: bool
  resume_button_pressed :: bool
  resume_required :: bool
  lkas_status :: int
  follow_level :: int

text \<open>
  \<open>CarControllerParams\<close> (gm/values.py) is not under src/: its constants and lookup tables
  are the fields of a record, a parameter of the model.
\<close>

record params =
  STEER_STEP :: int
  STEER_MAX :: real
  MIN_STEER_SPEED :: real
  MAX_ACC_REGEN :: int
  ZERO_GAS :: int
  NEAR_STOP_BRAKE_PHASE :: real
  ADAS_KEEPALIVE_STEP :: int
  CAMERA_KEEPALIVE_STEP :: int
  GAS_LOOKUP_BP :: "real list"
  GAS_LOOKUP_V :: "int list"
  BRAKE_LOOKUP_BP :: "real list"
  BRAKE_LOOKUP_V :: "int list"

text \<open>
  The other names \<open>update\<close> imports and src/ does not define, as a second parameter record:
  \<open>apply_std_steer_torque_limits\<close> (its last argument stands for \<open>P.v_ego\<close>),
  \<open>P.update_gas_brake_threshold\<close> (a method of \<open>self.params\<close> in the source; the model takes
  the threshold it returns and leaves the parameter record as it is), the methods \<open>reset\<close> and \<open>update\<close> of the PID controller
  (the PID state is a type parameter; \<open>pid_update\<close> takes setpoint, measurement, speed and
  feedforward and returns the output with the new state), the set \<open>COAST_SOURCES\<close>, the
  constant \<open>AccState.STANDSTILL\<close>, gravity and the unit conversions.
\<close>

record 'pid externals =
  apply_std_steer_torque_limits :: "int \<Rightarrow> int \<Rightarrow> real \<Rightarrow> real \<Rightarrow> int"
  update_gas_brake_threshold :: "real \<Rightarrow> bool \<Rightarrow> real"
  pid_reset :: "'pid \<Rightarrow> 'pid"
  pid_update :: "'pid \<Rightarrow> real \<Rightarrow> real \<Rightarrow> real \<Rightarrow> real \<Rightarrow> real \<times> 'pid"
  COAST_SOURCES :: "string list"
  AccState_STANDSTILL :: int
  ACCELERATION_DUE_TO_GRAVITY :: real
  MPH_TO_MS :: real
  KPH_TO_MS :: real
  MS_TO_KPH :: real

text \<open>The planner's actuators and the HUD alert enum (cereal).\<close>

record actuators =
  steer :: real
  accel :: real
  accelPitchCompensated :: real

datatype visual_alert = none | fcw | steerRequired | brakePressed | wrongGear
  | seatbeltUnbuckled | speedTooHigh | ldw

text \<open>
  The attributes of the CarController object. \<open>P_v_ego\<close> is the attribute \<open>v_ego\<close> that
  \<open>update\<close> writes into \<open>self.params\<close>. \<open>apply_gas\<close> and \<open>apply_brake\<close> hold ints between
  two calls.
\<close>

record 'pid car_controller =
  start_time :: real
  apply_steer_last :: int
  lka_steering_cmd_counter_last :: int
  lka_icon_status_last :: "bool \<times> bool"
  steer_rate_limited :: bool
  fcw_count :: int
  P_v_ego :: real
  one_pedal_pid :: 'pid
  one_pedal_decel :: real
  one_pedal_decel_in :: real
  lead_accel_last_t :: real
  apply_gas :: int
  apply_brake :: int

text \<open>
  The module gmcan is not under src/. An outgoing frame is the record of the gmcan call
  that builds it, with the arguments \<open>update\<close> computes (the packer and the bus are
  constants and left out). \<open>create_adas_keepalive\<close> returns a list of frames, which the
  source appends as a whole; it is one entry here.
\<close>

datatype can_msg =
    steering_control int int bool
  | friction_brake_command int int bool bool
  | gas_regen_command int int bool bool
  | acc_dashboard_command bool real bool int bool bool
  | adas_time_status int int
  | adas_headlights_status
  | adas_steering_status int
  | adas_accelerometer_speed_status real int
  | adas_keepalive
  | lka_icon_command bool bool bool

subsection \<open>Constants of the module\<close>

text \<open>Modelled from the spec: \<open>DT_CTRL\<close> (common.realtime) is not under src/; the spec gives 0.01 s.\<close>

definition DT_CTRL :: real where
  "DT_CTRL = 1 / 100"

definition ACCEL_PITCH_FACTOR_BP :: "real list" where
  "ACCEL_PITCH_FACTOR_BP = [5, 10]"

definition ACCEL_PITCH_FACTOR_V :: "real list" where
  "ACCEL_PITCH_FACTOR_V = [0, 1]"

definition ONE_PEDAL_ACCEL_PITCH_FACTOR_BP :: "real list" where
  "ONE_PEDAL_ACCEL_PITCH_FACTOR_BP = [4, 8]"

definition ONE_PEDAL_ACCEL_PITCH_FACTOR_V :: "real list" where
  "ONE_PEDAL_ACCEL_PITCH_FACTOR_V = [4 / 10, 1]"

definition ONE_PEDAL_ACCEL_PITCH_FACTOR_INCLINE_V :: "real list" where
  "ONE_PEDAL_ACCEL_PITCH_FACTOR_INCLINE_V = [2 / 10, 1]"

definition ONE_PEDAL_MODE_DECEL_BP :: "real \<Rightarrow> real list list" where
  "ONE_PEDAL_MODE_DECEL_BP mph_to_ms =
     [map (\<lambda>i. i * mph_to_ms) [5 / 10, 6],
      map (\<lambda>i. i * mph_to_ms) [4, 12, 30],
      map (\<lambda>i. i * mph_to_ms) [4, 16, 30]]"

definition ONE_PEDAL_MODE_DECEL_V :: "real list list" where
  "ONE_PEDAL_MODE_DECEL_V =
     [[- 1, - (11 / 10)],
      [- (13 / 10), - (17 / 10), - (18 / 10)],
      [- (17 / 10), - (26 / 10), - (24 / 10)]]"

definition ONE_PEDAL_MIN_SPEED :: real where
  "ONE_PEDAL_MIN_SPEED = 21 / 10"

definition ONE_PEDAL_DECEL_RATE_LIMIT_UP :: real where
  "ONE_PEDAL_DECEL_RATE_LIMIT_UP = 8 / 10 * DT_CTRL * 4"

definition ONE_PEDAL_DECEL_RATE_LIMIT_DOWN :: real where
  "ONE_PEDAL_DECEL_RATE_LIMIT_DOWN = 8 / 10 * DT_CTRL * 4"

definition ONE_PEDAL_MAX_DECEL :: real where
  "ONE_PEDAL_MAX_DECEL = - (35 / 10)"

definition ONE_PEDAL_SPEED_ERROR_FACTOR_BP :: "real list" where
  "ONE_PEDAL_SPEED_ERROR_FACTOR_BP = [15 / 10, 20]"

definition ONE_PEDAL_SPEED_ERROR_FACTOR_V :: "real list" where
  "ONE_PEDAL_SPEED_ERROR_FACTOR_V = [4 / 10, 2 / 10]"

definition ONE_PEDAL_LEAD_ACCEL_RATE_LOCKOUT_T :: real where
  "ONE_PEDAL_LEAD_ACCEL_RATE_LOCKOUT_T = 6 / 10"

subsection \<open>Steering (lines 88 to 105)\<close>

definition lkas_enabled_of :: "params \<Rightarrow> bool \<Rightarrow> car_state \<Rightarrow> bool" where
  "lkas_enabled_of P enabled CS \<longleftrightarrow>
     (enabled \<or> pause_long_on_gas_press CS) \<and> lkMode CS
     \<and> \<not> (steerWarning (out CS) \<or> steerError (out CS))
     \<and> vEgo (out CS) > MIN_STEER_SPEED P \<and> lane_change_steer_factor CS > 0"

text \<open>
  The result is the new controller state and the frames appended. When the loopback counter
  differs from the stored one, the stored one is updated and the \<open>elif\<close> is not reached.
\<close>

definition steering ::
  "params \<Rightarrow> 'pid externals \<Rightarrow> bool \<Rightarrow> car_state \<Rightarrow> int \<Rightarrow> actuators \<Rightarrow> 'pid car_controller
   \<Rightarrow> ('pid car_controller \<times> can_msg list) option" where
  "steering P ext enabled CS frame act self =
     (if lka_steering_cmd_counter CS \<noteq> lka_steering_cmd_counter_last self then
        Some (self\<lparr>lka_steering_cmd_counter_last := lka_steering_cmd_counter CS\<rparr>, [])
      else do {
        r \<leftarrow> py_mod frame (STEER_STEP P);
        if r = 0 then
          let lkas_enabled = lkas_enabled_of P enabled CS;
              new_steer = py_round (steer act * STEER_MAX P * lane_change_steer_factor CS);
              apply_steer =
                (if lkas_enabled
                 then apply_std_steer_torque_limits ext new_steer (apply_steer_last self)
                        (steeringTorque (out CS)) (vEgo (out CS))
                 else 0);
              self1 =
                (if lkas_enabled
                 then self\<lparr>P_v_ego := vEgo (out CS), steer_rate_limited := (new_steer \<noteq> apply_steer)\<rparr>
                 else self);
              idx = (lka_steering_cmd_counter CS + 1) mod 4
          in Some (self1\<lparr>apply_steer_last := apply_steer\<rparr>,
                   [steering_control apply_steer idx lkas_enabled])
        else Some (self, [])
      })"


subsection \<open>Gas and regen preparation (lines 108 to 223)\<close>

text \<open>
  Lines 120 to 124: the acceleration threshold between gas and brake. The lead-acceleration
  lockout time enters here and nowhere else in the method.
\<close>

definition threshold_accel_of :: "'pid externals \<Rightarrow> car_state \<Rightarrow> real \<Rightarrow> 'pid car_controller \<Rightarrow> real" where
  "threshold_accel_of ext CS t self =
     (if one_pedal_mode_active CS
         \<and> (\<not> one_pedal_mode_op_braking_allowed CS
            \<or> t - lead_accel_last_t self > ONE_PEDAL_LEAD_ACCEL_RATE_LOCKOUT_T)
      then update_gas_brake_threshold ext (max (CS_vEgo CS) ONE_PEDAL_MIN_SPEED) (engineRPM CS > 0)
      else update_gas_brake_threshold ext (vEgo (out CS)) (engineRPM CS > 0))"

text \<open>
  The five pairs of lockout tables of one kind (gas or brake): relative velocity, lead
  velocity, time to collision, time gap, distance.
\<close>

record lockout_tables =
  v_rel_bp :: "real list"
  v_rel_v :: "real list"
  v_bp :: "real list"
  v_v :: "real list"
  ttc_bp :: "real list"
  ttc_v :: "real list"
  tr_bp :: "real list"
  tr_v :: "real list"
  d_bp :: "real list"
  d_v :: "real list"

definition gas_lockout_tables :: "car_state \<Rightarrow> lockout_tables" where
  "gas_lockout_tables CS =
     \<lparr>v_rel_bp = lead_v_rel_long_gas_lockout_bp CS, v_rel_v = lead_v_rel_long_gas_lockout_v CS,
      v_bp = lead_v_long_gas_lockout_bp CS, v_v = lead_v_long_gas_lockout_v CS,
      ttc_bp = lead_ttc_long_gas_lockout_bp CS, ttc_v = lead_ttc_long_gas_lockout_v CS,
      tr_bp = lead_tr_long_gas_lockout_bp CS, tr_v = lead_tr_long_gas_lockout_v CS,
      d_bp = lead_d_long_gas_lockout_bp CS, d_v = lead_d_long_gas_lockout_v CS\<rparr>"

definition brake_lockout_tables :: "car_state \<Rightarrow> lockout_tables" where
  "brake_lockout_tables CS =
     \<lparr>v_rel_bp = lead_v_rel_long_brake_lockout_bp CS, v_rel_v = lead_v_rel_long_brake_lockout_v CS,
      v_bp = lead_v_long_brake_lockout_bp CS, v_v = lead_v_long_brake_lockout_v CS,
      ttc_bp = lead_ttc_long_brake_lockout_bp CS, ttc_v = lead_ttc_long_brake_lockout_v CS,
      tr_bp = lead_tr_long_brake_lockout_bp CS, tr_v = lead_tr_long_brake_lockout_v CS,
      d_bp = lead_d_long_brake_lockout_bp CS, d_v = lead_d_long_brake_lockout_v CS\<rparr>"

text \<open>Python's \<open>or\<close> on operands that may raise: the right one is evaluated only after a false left one.\<close>

definition or_else :: "bool option \<Rightarrow> bool option \<Rightarrow> bool option" where
  "or_else a b = (case a of None \<Rightarrow> None | Some c \<Rightarrow> if c then Some True else b)"

text \<open>The condition of lines 133 to 137 (gas) and 145 to 149 (brake).\<close>

definition lockout_tripped ::
  "lockout_tables \<Rightarrow> real \<Rightarrow> real \<Rightarrow> real \<Rightarrow> real \<Rightarrow> real \<Rightarrow> real \<Rightarrow> bool option" where
  "lockout_tripped T d ttc v_rel lead_v d_time trv =
     (if d > 0 then
        or_else (map_option (\<lambda>l. ttc < l) (py_last (ttc_bp T)))
       (or_else (map_option (\<lambda>l. v_rel < l) (py_last (v_rel_bp T)))
       (or_else (map_option (\<lambda>l. lead_v < l) (py_last (v_bp T)))
       (or_else (map_option (\<lambda>l. d_time < trv * l) (py_last (tr_bp T)))
                (map_option (\<lambda>l. d < l) (py_last (d_bp T))))))
      else Some False)"

text \<open>The maximum of the five interpolations (lines 138 to 143 and 150 to 155).\<close>

definition lockout_factor ::
  "lockout_tables \<Rightarrow> real \<Rightarrow> real \<Rightarrow> real \<Rightarrow> real \<Rightarrow> real \<Rightarrow> real \<Rightarrow> real option" where
  "lockout_factor T d ttc v_rel lead_v d_time trv =
     do {
       f1 \<leftarrow> interp v_rel (v_rel_bp T) (v_rel_v T);
       f2 \<leftarrow> interp lead_v (v_bp T) (v_v T);
       f3 \<leftarrow> interp ttc (ttc_bp T) (ttc_v T);
       q \<leftarrow> py_div d_time trv;
       f4 \<leftarrow> interp q (tr_bp T) (tr_v T);
       f5 \<leftarrow> interp d (d_bp T) (d_v T);
       py_max_list [f1, f2, f3, f4, f5]
     }"

text \<open>
  Lines 129 to 160: the pair \<open>(lead_long_gas_lockout_factor, lead_long_brake_lockout_factor)\<close>.
  The divisions of lines 130 and 131 are guarded by their conditions.
\<close>

definition lead_lockout_factors :: "car_state \<Rightarrow> (real \<times> real) option" where
  "lead_lockout_factors CS =
     (let d = coasting_lead_d CS;
          v_rel = coasting_lead_v CS - CS_vEgo CS;
          ttc = min (if d > 0 \<and> v_rel < 0 then - d / v_rel else 100) 100;
          d_time = (if d > 0 \<and> CS_vEgo CS > 0 \<and> tr CS > 0 then d / CS_vEgo CS else 10)
      in do {
        g \<leftarrow> lockout_tripped (gas_lockout_tables CS) d ttc v_rel (coasting_lead_v CS) d_time (tr CS);
        if g then
          do {
            gf \<leftarrow> lockout_factor (gas_lockout_tables CS) d ttc v_rel (coasting_lead_v CS) d_time (tr CS);
            b \<leftarrow> lockout_tripped (brake_lockout_tables CS) d ttc v_rel (coasting_lead_v CS) d_time (tr CS);
            if b then
              do {
                bf \<leftarrow> lockout_factor (brake_lockout_tables CS) d ttc v_rel (coasting_lead_v CS)
                        d_time (tr CS);
                Some (gf, bf)
              }
            else Some (gf, 0)
          }
        else Some (0, 0)
      })"

text \<open>Lines 168 to 171: the gas command in either one-pedal mode.\<close>

definition dl_coasting :: "car_state \<Rightarrow> bool" where
  "dl_coasting CS \<longleftrightarrow>
     gear_shifter_ev CS = 4 \<and> one_pedal_dl_coasting_enabled CS \<and> CS_vEgo CS > 5 / 100"

definition one_pedal_gas :: "params \<Rightarrow> car_state \<Rightarrow> int" where
  "one_pedal_gas P CS =
     (if \<not> one_pedal_mode_active CS \<and> dl_coasting CS then ZERO_GAS P else MAX_ACC_REGEN P)"

text \<open>Lines 172 and 173.\<close>

definition pitch_accel_of :: "'pid externals \<Rightarrow> car_state \<Rightarrow> real option" where
  "pitch_accel_of ext CS =
     (let pitch_accel = pitch CS * ACCELERATION_DUE_TO_GRAVITY ext
      in do {
        f \<leftarrow> interp (CS_vEgo CS) ONE_PEDAL_ACCEL_PITCH_FACTOR_BP
               (if pitch_accel \<le> 0 then ONE_PEDAL_ACCEL_PITCH_FACTOR_V
                else ONE_PEDAL_ACCEL_PITCH_FACTOR_INCLINE_V);
        Some (pitch_accel * f)
      })"

text \<open>Lines 176 to 179: the target deceleration of the brake mode, blended in a sharp turn.\<close>

definition one_pedal_target :: "'pid externals \<Rightarrow> car_state \<Rightarrow> real option" where
  "one_pedal_target ext CS =
     do {
       bp \<leftarrow> py_nth (ONE_PEDAL_MODE_DECEL_BP (MPH_TO_MS ext)) (one_pedal_brake_mode CS);
       vs \<leftarrow> py_nth ONE_PEDAL_MODE_DECEL_V (one_pedal_brake_mode CS);
       din \<leftarrow> interp (CS_vEgo CS) bp vs;
       c0 \<leftarrow> py_first (one_pedal_angle_steers_cutoff_bp CS);
       if \<bar>angle_steers CS\<bar> > c0 then
         do {
           bp1 \<leftarrow> py_nth (ONE_PEDAL_MODE_DECEL_BP (MPH_TO_MS ext)) (max 0 (one_pedal_brake_mode CS - 1));
           vs1 \<leftarrow> py_nth ONE_PEDAL_MODE_DECEL_V (max 0 (one_pedal_brake_mode CS - 1));
           minus1 \<leftarrow> interp (CS_vEgo CS) bp1 vs1;
           interp \<bar>angle_steers CS\<bar> (one_pedal_angle_steers_cutoff_bp CS) [din, minus1]
         }
       else Some din
     }"

text \<open>
  Lines 175 to 191: the one-pedal step. The result is the controller with the new
  \<open>one_pedal_decel_in\<close>, PID state and \<open>one_pedal_decel\<close>, and \<open>one_pedal_apply_brake\<close>.
\<close>

definition one_pedal_step ::
  "params \<Rightarrow> 'pid externals \<Rightarrow> car_state \<Rightarrow> real \<Rightarrow> real \<Rightarrow> 'pid car_controller
   \<Rightarrow> ('pid car_controller \<times> real) option" where
  "one_pedal_step P ext CS pitch_accel threshold_accel self =
     (if one_pedal_mode_active CS then
        do {
          din \<leftarrow> one_pedal_target ext CS;
          error_factor \<leftarrow> interp (CS_vEgo CS) ONE_PEDAL_SPEED_ERROR_FACTOR_BP
                            ONE_PEDAL_SPEED_ERROR_FACTOR_V;
          let error = (din - min 0 (aEgo (out CS) + pitch_accel)) * error_factor;
          let (raw, pid') = pid_update ext (one_pedal_pid self) din (din - error) (vEgo (out CS)) din;
          let limited = clip raw
                (one_pedal_decel self - ONE_PEDAL_DECEL_RATE_LIMIT_UP * max 1 (1 / 2 - raw * (1 / 2)))
                (one_pedal_decel self + ONE_PEDAL_DECEL_RATE_LIMIT_DOWN);
          let floored = max limited ONE_PEDAL_MAX_DECEL;
          one_pedal_apply_brake \<leftarrow> interp floored (BRAKE_LOOKUP_BP P) (map real_of_int (BRAKE_LOOKUP_V P));
          Some (self\<lparr>one_pedal_decel_in := din, one_pedal_pid := pid', one_pedal_decel := floored\<rparr>,
                one_pedal_apply_brake)
        }
      else
        Some (self\<lparr>one_pedal_decel_in :=
                 clip (if dl_coasting CS then 0 else min (aEgo (out CS)) threshold_accel)
                   (one_pedal_decel_in self - ONE_PEDAL_DECEL_RATE_LIMIT_UP)
                   (one_pedal_decel_in self + ONE_PEDAL_DECEL_RATE_LIMIT_DOWN)\<rparr>,
              0))"

text \<open>
  Lines 200 to 204 and 208 to 212: the over-speed factor. Both breakpoints are interpolated
  before the condition on the speed is looked at.
\<close>

definition over_speed_factor :: "car_state \<Rightarrow> real list list \<Rightarrow> real \<Rightarrow> real option" where
  "over_speed_factor CS table check_speed_ms =
     do {
       t0 \<leftarrow> py_nth table 0;
       b0 \<leftarrow> interp (CS_vEgo CS) (coasting_over_speed_vEgo_BP_BP CS) t0;
       t1 \<leftarrow> py_nth table 1;
       b1 \<leftarrow> interp (CS_vEgo CS) (coasting_over_speed_vEgo_BP_BP CS) t1;
       if check_speed_ms > 0 \<and> coasting_brake_over_speed_enabled CS
       then interp (CS_vEgo CS / check_speed_ms) [b0, b1] [0, 1]
       else Some 0
     }"

text \<open>Lines 197 to 214: coasting. The pair is \<open>(apply_gas, apply_brake)\<close>, floats at this point.\<close>

definition coasting_adjust ::
  "params \<Rightarrow> 'pid externals \<Rightarrow> car_state \<Rightarrow> real \<Rightarrow> real \<Rightarrow> real \<times> real \<Rightarrow> (real \<times> real) option" where
  "coasting_adjust P ext CS gf bf gb =
     (case gb of (ag, ab) \<Rightarrow>
        if (coasting_long_plan CS \<in> set (COAST_SOURCES ext) \<and> ag < real_of_int (ZERO_GAS P)) \<or> ab > 0
        then
          let check_speed_ms =
                (if speed_limit_active CS \<and> speed_limit CS < v_cruise_kph CS
                 then speed_limit CS else v_cruise_kph CS) * KPH_TO_MS ext
          in do {
            ab' \<leftarrow>
              (if ab > 0 then
                 do {
                   osf \<leftarrow> over_speed_factor CS (coasting_over_speed_vEgo_BP CS) check_speed_ms;
                   py_max_list [ab * bf, ab * osf]
                 }
               else Some ab);
            ag' \<leftarrow>
              (if ag < real_of_int (ZERO_GAS P) \<and> gf < 1 then
                 do {
                   osf \<leftarrow> over_speed_factor CS (coasting_over_speed_regen_vEgo_BP CS) check_speed_ms;
                   let coast_apply_gas =
                         py_round (real_of_int (ZERO_GAS P) - osf * (real_of_int (ZERO_GAS P) - ag));
                   Some (ag * gf + real_of_int coast_apply_gas * (1 - gf))
                 }
               else Some ag);
            Some (ag', ab')
          }
        else Some (ag, ab))"

text \<open>Lines 162 to 165: outside both one-pedal modes the one-pedal state is reset.\<close>

definition one_pedal_reset :: "'pid externals \<Rightarrow> car_state \<Rightarrow> 'pid car_controller \<Rightarrow> 'pid car_controller" where
  "one_pedal_reset ext CS self =
     (if \<not> one_pedal_mode_active CS \<and> \<not> coast_one_pedal_mode_active CS
      then self\<lparr>one_pedal_pid := pid_reset ext (one_pedal_pid self),
                one_pedal_decel := aEgo (out CS), one_pedal_decel_in := aEgo (out CS)\<rparr>
      else self)"

text \<open>
  Lines 167 to 217: one-pedal, else coasting, else no friction braking. \<open>ag0\<close> and \<open>ab0\<close>
  are \<open>self.apply_gas\<close> and \<open>self.apply_brake\<close> as the lookups of lines 125 and 127 left
  them; the result is the controller with the two values after the branch.
\<close>

definition mode_adjust ::
  "params \<Rightarrow> 'pid externals \<Rightarrow> car_state \<Rightarrow> real \<Rightarrow> real \<Rightarrow> real \<Rightarrow> 'pid car_controller
   \<Rightarrow> real \<Rightarrow> real \<Rightarrow> ('pid car_controller \<times> real \<times> real) option" where
  "mode_adjust P ext CS threshold_accel gf bf self ag0 ab0 =
     (if one_pedal_mode_active CS \<or> coast_one_pedal_mode_active CS then
        do {
          pitch_accel \<leftarrow> pitch_accel_of ext CS;
          (self', one_pedal_apply_brake) \<leftarrow> one_pedal_step P ext CS pitch_accel threshold_accel self;
          Some (self', real_of_int (one_pedal_gas P CS),
                if \<not> one_pedal_mode_op_braking_allowed CS \<or> one_pedal_apply_brake > ab0
                then one_pedal_apply_brake else ab0)
        }
      else if coasting_enabled CS \<and> bf < 1 then
        do { (ag', ab') \<leftarrow> coasting_adjust P ext CS gf bf (ag0, ab0); Some (self, ag', ab') }
      else if no_friction_braking CS \<and> bf < 1 then
        Some (self, ag0,
              if coasting_long_plan CS \<in> set (COAST_SOURCES ext) \<and> ab0 > 0 then ab0 * bf else ab0)
      else Some (self, ag0, ab0))"

text \<open>
  Lines 117 to 222: the branch taken when enabled and not pausing for the gas pedal. \<open>t\<close> is
  the value of \<open>sec_since_boot()\<close>. The result is the controller, the car state and
  \<open>no_pitch_apply_gas\<close>.
\<close>

definition longitudinal ::
  "params \<Rightarrow> 'pid externals \<Rightarrow> car_state \<Rightarrow> actuators \<Rightarrow> real \<Rightarrow> 'pid car_controller
   \<Rightarrow> ('pid car_controller \<times> car_state \<times> real) option" where
  "longitudinal P ext CS act t self =
     do {
       k \<leftarrow> interp (vEgo (out CS)) ACCEL_PITCH_FACTOR_BP ACCEL_PITCH_FACTOR_V;
       let brake_accel = k * accelPitchCompensated act + (1 - k) * accel act;
       let threshold_accel = threshold_accel_of ext CS t self;
       ag0 \<leftarrow> interp (accelPitchCompensated act) (GAS_LOOKUP_BP P) (map real_of_int (GAS_LOOKUP_V P));
       no_pitch_apply_gas \<leftarrow> interp (accel act) (GAS_LOOKUP_BP P) (map real_of_int (GAS_LOOKUP_V P));
       ab0 \<leftarrow> interp brake_accel (BRAKE_LOOKUP_BP P) (map real_of_int (BRAKE_LOOKUP_V P));
       (gf, bf) \<leftarrow> lead_lockout_factors CS;
       let self1 = one_pedal_reset ext CS self;
       (self2, ag, ab) \<leftarrow> mode_adjust P ext CS threshold_accel gf bf self1 ag0 ab0;
       Some (self2\<lparr>apply_gas := py_round ag, apply_brake := py_round ab\<rparr>,
             CS\<lparr>one_pedal_mode_active_last := one_pedal_mode_active CS,
                coast_one_pedal_mode_active_last := coast_one_pedal_mode_active CS\<rparr>,
             no_pitch_apply_gas)
     }"

text \<open>Lines 108 to 223 on a tick with \<open>frame % 4 == 0\<close>.\<close>

definition gas_regen_prep ::
  "params \<Rightarrow> 'pid externals \<Rightarrow> bool \<Rightarrow> car_state \<Rightarrow> actuators \<Rightarrow> real \<Rightarrow> 'pid car_controller
   \<Rightarrow> ('pid car_controller \<times> car_state \<times> real) option" where
  "gas_regen_prep P ext enabled CS act t self =
     do {
       (self1, CS1, no_pitch_apply_gas) \<leftarrow>
         (if \<not> enabled \<or> pause_long_on_gas_press CS then
            Some (self\<lparr>apply_gas := MAX_ACC_REGEN P, apply_brake := 0,
                       one_pedal_pid := pid_reset ext (one_pedal_pid self),
                       one_pedal_decel := aEgo (out CS), one_pedal_decel_in := aEgo (out CS)\<rparr>,
                  CS, 0)
          else longitudinal P ext CS act t self);
       Some (self1, CS1\<lparr>brake_cmd := apply_brake self1\<rparr>, no_pitch_apply_gas)
     }"


subsection \<open>Brake indicator (lines 225 to 243)\<close>

definition brake_percent :: "params \<Rightarrow> car_state \<Rightarrow> 'pid car_controller \<Rightarrow> real option" where
  "brake_percent P CS self =
     (let by_wattage = interp (hvb_wattage CS) (hvb_wattage_bp CS) [0, 49];
          by_brake = interp (brake (out CS)) [0, 1 / 2] [51, 100]
      in if CS_vEgo CS > 1 / 10 then
           if cruiseState_enabled (out CS) then
             if \<not> pause_long_on_gas_press CS then
               if apply_brake self > 1 then
                 do {
                   lo \<leftarrow> py_last (BRAKE_LOOKUP_V P);
                   hi \<leftarrow> py_first (BRAKE_LOOKUP_V P);
                   interp (real_of_int (apply_brake self)) [real_of_int lo, real_of_int hi] [51, 100]
                 }
               else if one_pedal_mode_active CS \<or> coast_one_pedal_mode_active CS then by_wattage
               else if apply_gas self < ZERO_GAS P then
                 do {
                   g0 \<leftarrow> py_nth (GAS_LOOKUP_V P) 0;
                   g1 \<leftarrow> py_nth (GAS_LOOKUP_V P) 1;
                   interp (real_of_int (apply_gas self)) [real_of_int g0, real_of_int g1] [51, 0]
                 }
               else Some 0
             else by_wattage
           else if is_ev CS \<and> brake (out CS) = 0 then by_wattage
           else if brake (out CS) > 0 then by_brake
           else Some 0
         else if brake (out CS) > 0 then by_brake
         else Some 0)"

definition brake_indicator :: "params \<Rightarrow> car_state \<Rightarrow> 'pid car_controller \<Rightarrow> car_state option" where
  "brake_indicator P CS self =
     (if showBrakeIndicator CS then
        do { p \<leftarrow> brake_percent P CS self; Some (CS\<lparr>apply_brake_percent := p\<rparr>) }
      else Some CS)"

subsection \<open>Gas, regen and brake frames (lines 246 to 284)\<close>

text \<open>The condition of line 249: the auto-hold state.\<close>

definition auto_hold :: "bool \<Rightarrow> car_state \<Rightarrow> bool" where
  "auto_hold enabled CS \<longleftrightarrow>
     cruiseMain CS \<and> \<not> enabled \<and> autoHold CS \<and> autoHoldActive CS \<and> \<not> gasPressed (out CS)
     \<and> gearShifter (out CS) \<in> set [''drive'', ''low''] \<and> vEgo (out CS) < 2 / 100
     \<and> \<not> regenPaddlePressed CS"

text \<open>The result is the car state and the frames appended, in order.\<close>

definition brake_gas_frames ::
  "params \<Rightarrow> 'pid externals \<Rightarrow> bool \<Rightarrow> car_state \<Rightarrow> int \<Rightarrow> real \<Rightarrow> 'pid car_controller
   \<Rightarrow> car_state \<times> can_msg list" where
  "brake_gas_frames P ext enabled CS frame no_pitch_apply_gas self =
     (let idx = (frame div 4) mod 4
      in if auto_hold enabled CS then
           let car_stopping = no_pitch_apply_gas < real_of_int (ZERO_GAS P);
               standstill = (pcm_acc_status CS = AccState_STANDSTILL ext);
               at_full_stop = (standstill \<and> car_stopping);
               near_stop = (vEgo (out CS) < NEAR_STOP_BRAKE_PHASE P \<and> car_stopping)
           in (CS\<lparr>autoHoldActivated := True\<rparr>,
               [friction_brake_command (apply_brake self) idx near_stop at_full_stop])
         else
           let paused = pause_long_on_gas_press CS;
               car_stopping = (\<not> paused \<and> no_pitch_apply_gas < real_of_int (ZERO_GAS P));
               standstill = (\<not> paused \<and> pcm_acc_status CS = AccState_STANDSTILL ext);
               at_full_stop = (\<not> paused \<and> enabled \<and> standstill \<and> car_stopping);
               near_stop = (\<not> paused \<and> enabled \<and> vEgo (out CS) < NEAR_STOP_BRAKE_PHASE P
                            \<and> car_stopping);
               CS1 = CS\<lparr>autoHoldActivated := False\<rparr>;
               resume = (standstill \<and> \<not> car_stopping);
               acc_enabled = (if resume \<and> do_sng CS then False else enabled);
               CS2 = (if resume then
                        if do_sng CS then CS1\<lparr>resume_button_pressed := True\<rparr>
                        else if vEgo (out CS) < 15 / 10 then CS1\<lparr>resume_required := True\<rparr>
                        else CS1
                      else CS1)
           in (CS2,
               [friction_brake_command (apply_brake self) idx near_stop at_full_stop,
                gas_regen_command (apply_gas self) idx acc_enabled at_full_stop]))"

subsection \<open>Dashboard and periodic frames (lines 287 to 325)\<close>

definition dashboard ::
  "'pid externals \<Rightarrow> bool \<Rightarrow> car_state \<Rightarrow> real \<Rightarrow> bool \<Rightarrow> visual_alert \<Rightarrow> car_state \<times> can_msg list" where
  "dashboard ext enabled CS hud_v_cruise hud_show_car hud_alert =
     (let send_fcw = (hud_alert = fcw)
      in (CS\<lparr>resume_button_pressed := False\<rparr>,
          [acc_dashboard_command enabled (hud_v_cruise * MS_TO_KPH ext) hud_show_car
             (follow_level CS) send_fcw (resume_button_pressed CS)]))"

definition adas_frames :: "car_state \<Rightarrow> int \<Rightarrow> 'pid car_controller \<Rightarrow> can_msg list" where
  "adas_frames CS frame self =
     (let tt = real_of_int frame * DT_CTRL
      in (if frame mod 10 = 0
          then [adas_time_status (py_int ((tt - start_time self) * 60)) ((frame div 10) mod 4),
                adas_headlights_status]
          else [])
         @ (if frame mod 2 = 0
            then [adas_steering_status ((frame div 2) mod 4),
                  adas_accelerometer_speed_status (vEgo (out CS)) ((frame div 2) mod 4)]
            else []))"

definition keepalive_frames :: "params \<Rightarrow> int \<Rightarrow> can_msg list option" where
  "keepalive_frames P frame =
     do { r \<leftarrow> py_mod frame (ADAS_KEEPALIVE_STEP P); Some (if r = 0 then [adas_keepalive] else []) }"

definition lka_icon ::
  "params \<Rightarrow> car_state \<Rightarrow> int \<Rightarrow> actuators \<Rightarrow> visual_alert \<Rightarrow> 'pid car_controller
   \<Rightarrow> ('pid car_controller \<times> can_msg list) option" where
  "lka_icon P CS frame act hud_alert self =
     (let lka_active = (lkas_status CS = 1);
          lka_critical = (lka_active \<and> \<bar>steer act\<bar> > 9 / 10);
          lka_icon_status = (lka_active, lka_critical)
      in do {
        r \<leftarrow> py_mod frame (CAMERA_KEEPALIVE_STEP P);
        if r = 0 \<or> lka_icon_status \<noteq> lka_icon_status_last self then
          let steer_alert = (hud_alert \<in> set [steerRequired, ldw])
          in Some (self\<lparr>lka_icon_status_last := lka_icon_status\<rparr>,
                   [lka_icon_command lka_active lka_critical steer_alert])
        else Some (self, [])
      })"

subsection \<open>The method \<open>update\<close>\<close>

text \<open>
  \<open>CarController.update\<close>: the stages in the order of the source. \<open>t\<close> is the clock
  \<open>sec_since_boot()\<close>. The result is the list \<open>can_sends\<close>, the controller and the car state
  after the call; \<open>None\<close> when the call raises.
\<close>

definition update ::
  "params \<Rightarrow> 'pid externals \<Rightarrow> real \<Rightarrow> 'pid car_controller \<Rightarrow> bool \<Rightarrow> car_state \<Rightarrow> int
   \<Rightarrow> actuators \<Rightarrow> real \<Rightarrow> bool \<Rightarrow> bool \<Rightarrow> visual_alert
   \<Rightarrow> (can_msg list \<times> 'pid car_controller \<times> car_state) option" where
  "update P ext t self enabled CS frame act hud_v_cruise hud_show_lanes hud_show_car hud_alert =
     do {
       (self1, sends1) \<leftarrow> steering P ext enabled CS frame act self;
       (self2, CS2, no_pitch_apply_gas) \<leftarrow>
         (if frame mod 4 = 0 then gas_regen_prep P ext enabled CS act t self1
          else Some (self1, CS, 0));
       CS3 \<leftarrow> brake_indicator P CS2 self2;
       let (CS4, sends2) =
         (if frame mod 4 = 0 then brake_gas_frames P ext enabled CS3 frame no_pitch_apply_gas self2
          else (CS3, []));
       let (CS5, sends3) =
         (if frame mod 4 = 0 then dashboard ext enabled CS4 hud_v_cruise hud_show_car hud_alert
          else (CS4, []));
       let sends4 = adas_frames CS5 frame self2;
       sends5 \<leftarrow> keepalive_frames P frame;
       (self3, sends6) \<leftarrow> lka_icon P CS5 frame act hud_alert self2;
       Some (sends1 @ sends2 @ sends3 @ sends4 @ sends5 @ sends6, self3, CS5)
     }"

text \<open>The frames of one kind in a list of outgoing frames.\<close>

definition is_steering :: "can_msg \<Rightarrow> bool" where
  "is_steering m = (case m of steering_control _ _ _ \<Rightarrow> True | _ \<Rightarrow> False)"

definition is_friction_brake :: "can_msg \<Rightarrow> bool" where
  "is_friction_brake m = (case m of friction_brake_command _ _ _ _ \<Rightarrow> True | _ \<Rightarrow> False)"

definition is_gas_regen :: "can_msg \<Rightarrow> bool" where
  "is_gas_regen m = (case m of gas_regen_command _ _ _ _ \<Rightarrow> True | _ \<Rightarrow> False)"


subsection \<open>The declared shape of the lookup tables\<close>

text \<open>
  The tables of \<open>CarControllerParams\<close> and the lockout tables of the car state are set
  outside src/. \<open>tables_ok\<close> says what the ranges of \<open>apply_gas\<close> and \<open>apply_brake\<close> take
  from the parameters: the gas values lie between \<open>MAX_ACC_REGEN\<close> and the last gas value,
  \<open>ZERO_GAS\<close> too, and the brake values between 0 and the first brake value.
  \<open>lockout_values_ok\<close> says that the values of the ten lockout tables are not negative
  (the spec has the lockout factors in [0, 1]).
\<close>

definition tables_ok :: "params \<Rightarrow> bool" where
  "tables_ok P \<longleftrightarrow>
     GAS_LOOKUP_V P \<noteq> [] \<and> BRAKE_LOOKUP_V P \<noteq> []
     \<and> (\<forall>g \<in> set (GAS_LOOKUP_V P). MAX_ACC_REGEN P \<le> g \<and> g \<le> last (GAS_LOOKUP_V P))
     \<and> MAX_ACC_REGEN P \<le> ZERO_GAS P \<and> ZERO_GAS P \<le> last (GAS_LOOKUP_V P)
     \<and> (\<forall>b \<in> set (BRAKE_LOOKUP_V P). 0 \<le> b \<and> b \<le> hd (BRAKE_LOOKUP_V P))"

definition values_ok :: "lockout_tables \<Rightarrow> bool" where
  "values_ok T \<longleftrightarrow>
     (\<forall>w \<in> set (v_rel_v T) \<union> set (v_v T) \<union> set (ttc_v T) \<union> set (tr_v T) \<union> set (d_v T). 0 \<le> w)"

definition lockout_values_ok :: "car_state \<Rightarrow> bool" where
  "lockout_values_ok CS \<longleftrightarrow> values_ok (gas_lockout_tables CS) \<and> values_ok (brake_lockout_tables CS)"

section \<open>Concrete inputs\<close>

text \<open>
  A parameter set with the shape of the Volt tables, externals with the simplest behaviour
  (no torque limit, a zero threshold, a PID that returns its feedforward), a car state, and
  the controller as \<open>__init__\<close> leaves it. The theorems below are instantiated at them.
\<close>

definition P0 :: params where
  "P0 = \<lparr>STEER_STEP = 2, STEER_MAX = 300, MIN_STEER_SPEED = 3, MAX_ACC_REGEN = 1404,
          ZERO_GAS = 2048, NEAR_STOP_BRAKE_PHASE = 1 / 2, ADAS_KEEPALIVE_STEP = 100,
          CAMERA_KEEPALIVE_STEP = 100, GAS_LOOKUP_BP = [- 1, 0, 2],
          GAS_LOOKUP_V = [1404, 2048, 3072], BRAKE_LOOKUP_BP = [- 4, - 1],
          BRAKE_LOOKUP_V = [350, 0]\<rparr>"

definition ext0 :: "unit externals" where
  "ext0 = \<lparr>apply_std_steer_torque_limits = (\<lambda>new_steer last torque v. new_steer),
            update_gas_brake_threshold = (\<lambda>v regen. 0),
            pid_reset = (\<lambda>p. p),
            pid_update = (\<lambda>p setpoint measurement speed feedforward. (feedforward, p)),
            COAST_SOURCES = [''cruise'', ''limit''],
            AccState_STANDSTILL = 4,
            ACCELERATION_DUE_TO_GRAVITY = 981 / 100,
            MPH_TO_MS = 44704 / 100000,
            KPH_TO_MS = 10 / 36,
            MS_TO_KPH = 36 / 10\<rparr>"

definition out0 :: out_state where
  "out0 = \<lparr>vEgo = 10, aEgo = - 5, steerWarning = False, steerError = False, steeringTorque = 0,
           gasPressed = False, gearShifter = ''drive'', brake = 0, cruiseState_enabled = False\<rparr>"

definition CS0 :: car_state where
  "CS0 = \<lparr>out = out0, lka_steering_cmd_counter = 1, pause_long_on_gas_press = False,
          lkMode = True, lane_change_steer_factor = 1, one_pedal_mode_active = False,
          one_pedal_mode_op_braking_allowed = True, coast_one_pedal_mode_active = False,
          CS_vEgo = 10, engineRPM = 0, coasting_lead_v = 0, coasting_lead_d = 0, tr = 18 / 10,
          lead_v_rel_long_gas_lockout_bp = [- 4, - 1], lead_v_rel_long_gas_lockout_v = [1, 0],
          lead_v_long_gas_lockout_bp = [2, 4], lead_v_long_gas_lockout_v = [1, 0],
          lead_ttc_long_gas_lockout_bp = [2, 5], lead_ttc_long_gas_lockout_v = [1, 0],
          lead_tr_long_gas_lockout_bp = [1, 2], lead_tr_long_gas_lockout_v = [1, 0],
          lead_d_long_gas_lockout_bp = [10, 20], lead_d_long_gas_lockout_v = [1, 0],
          lead_v_rel_long_brake_lockout_bp = [- 4, - 1], lead_v_rel_long_brake_lockout_v = [1, 0],
          lead_v_long_brake_lockout_bp = [2, 4], lead_v_long_brake_lockout_v = [1, 0],
          lead_ttc_long_brake_lockout_bp = [2, 5], lead_ttc_long_brake_lockout_v = [1, 0],
          lead_tr_long_brake_lockout_bp = [1, 2], lead_tr_long_brake_lockout_v = [1, 0],
          lead_d_long_brake_lockout_bp = [10, 20], lead_d_long_brake_lockout_v = [1, 0],
          gear_shifter_ev = 0, one_pedal_dl_coasting_enabled = False, pitch = 0,
          one_pedal_brake_mode = 0, angle_steers = 0, one_pedal_angle_steers_cutoff_bp = [60, 180],
          coasting_enabled = False, coasting_long_plan = ''cruise'', speed_limit = 0,
          speed_limit_active = False, v_cruise_kph = 100,
          coasting_over_speed_vEgo_BP_BP = [1, 2],
          coasting_over_speed_vEgo_BP = [[1, 2], [3, 4]],
          coasting_over_speed_regen_vEgo_BP = [[1, 2], [3, 4]],
          coasting_brake_over_speed_enabled = False, no_friction_braking = False,
          one_pedal_mode_active_last = False, coast_one_pedal_mode_active_last = False,
          brake_cmd = 0, showBrakeIndicator = True, apply_brake_percent = 0, hvb_wattage = 0,
          hvb_wattage_bp = [0, 53], is_ev = True, cruiseMain = True, autoHold = False,
          autoHoldActive = False, regenPaddlePressed = False, pcm_acc_status = 0,
          autoHoldActivated = False, do_sng = False, resume_button_pressed = False,
          resume_required = False, lkas_status = 0, follow_level = 1\<rparr>"

definition act0 :: actuators where
  "act0 = \<lparr>steer = 0, accel = 0, accelPitchCompensated = 0\<rparr>"

definition self0 :: "unit car_controller" where
  "self0 = \<lparr>start_time = 0, apply_steer_last = 0, lka_steering_cmd_counter_last = - 1,
            lka_icon_status_last = (False, False), steer_rate_limited = False, fcw_count = 0,
            P_v_ego = 0, one_pedal_pid = (), one_pedal_decel = 0, one_pedal_decel_in = 0,
            lead_accel_last_t = 0, apply_gas = 0, apply_brake = 0\<rparr>"

text \<open>A vision lead whose three standard deviations are zero, and a radar cluster next to it.\<close>

definition lead0 :: lead_msg where
  "lead0 = \<lparr>x = [40], y = [0], v = [25], xStd = [0], yStd = [0], vStd = [0], prob = 9 / 10\<rparr>"

definition c0 :: cluster where
  "c0 = \<lparr>dRel = 38, yRel = 0, vRel = - 5, vLead = 25, vLeadK = 25, aLeadK = 0, aLeadTau = 0\<rparr>"

text \<open>A long-range filter with the time step 0.05 s, mid-way through smoothing.\<close>

definition fof0 :: first_order_filter where
  "fof0 = \<lparr>fof_x = 150, fof_dt = 5 / 100, fof_alpha = 1, initialized = True\<rparr>"

definition lrl0 :: long_range_lead where
  "lrl0 = \<lparr>f_dRel = fof0, f_vRel = fof0, f_vLead = fof0, f_vLeadK = fof0, f_aLeadK = fof0,
           f_aLeadTau = fof0, lead_last = None\<rparr>"

text \<open>
  Tracks as pairs of a lead speed and a sample count, a clustering primitive that puts all
  points into one cluster and one that never returns, a table holding track 7, and readings
  with the single ids 7 and 9.
\<close>

definition ops0 :: "(real \<times> int) track_ops" where
  "ops0 = \<lparr>Track = (\<lambda>v_lead. (v_lead, 0)),
           track_update = (\<lambda>t d yr vr v_lead meas. (v_lead, snd t + 1)),
           get_key_for_cluster = (\<lambda>t. [fst t, 0, 0, 1]),
           cnt = snd,
           reset_a_lead = (\<lambda>t a tau. t),
           cluster_aLeadK = (\<lambda>ts. 0),
           cluster_aLeadTau = (\<lambda>ts. 0)\<rparr>"

definition cpc_one :: "real list list \<Rightarrow> real \<Rightarrow> nat list option" where
  "cpc_one pts threshold = Some (map (\<lambda>p. 0) pts)"

definition cpc_hang :: "real list list \<Rightarrow> real \<Rightarrow> nat list option" where
  "cpc_hang pts threshold = None"

definition radard7 :: "(real \<times> int) radard" where
  "radard7 = \<lparr>current_time = 0, tracks = [(7, (25, 3))], v_ego = 30, v_ego_hist = [30],
              delay = 0, ready = True\<rparr>"

definition sm0 :: sub_master where
  "sm0 = \<lparr>logMonoTime = [1000, 2000], updated_carState = True, carState_vEgo = 30,
          updated_modelV2 = True\<rparr>"

definition pts7 :: "radar_point list" where
  "pts7 = [\<lparr>trackId = 7, pt_dRel = 40, pt_yRel = 0, pt_vRel = - 5, measured = True\<rparr>]"

definition pts9 :: "radar_point list" where
  "pts9 = [\<lparr>trackId = 9, pt_dRel = 60, pt_yRel = 1, pt_vRel = - 2, measured = True\<rparr>]"

text \<open>
  Two clusters in the left adjacent lane, one ten metres behind the other, at the same
  lateral offset; a model message with a straight path of 33 points, 6 m apart, and four
  straight lane lines (the lane is 3.7 m wide) seen with probability 0.9.
\<close>

definition cA :: cluster where
  "cA = \<lparr>dRel = 10, yRel = 2, vRel = 0, vLead = 20, vLeadK = 20, aLeadK = 0, aLeadTau = 0\<rparr>"

definition cB :: cluster where
  "cB = \<lparr>dRel = 20, yRel = 2, vRel = 0, vLead = 20, vLeadK = 20, aLeadK = 0, aLeadTau = 0\<rparr>"

definition path_x :: "real list" where
  "path_x = [0, 6, 12, 18, 24, 30, 36, 42, 48, 54, 60, 66, 72, 78, 84, 90, 96, 102, 108, 114, 120,
             126, 132, 138, 144, 150, 156, 162, 168, 174, 180, 186, 192]"

definition md0 :: model_v2 where
  "md0 = \<lparr>position_x = path_x, position_y = replicate 33 0,
           laneLines = [(path_x, replicate 33 (- (555 / 100))), (path_x, replicate 33 (- (185 / 100))),
                        (path_x, replicate 33 (185 / 100)), (path_x, replicate 33 (555 / 100))],
           laneLineProbs = [9 / 10, 9 / 10, 9 / 10, 9 / 10]\<rparr>"

text \<open>The controller after it has seen the loopback counter 1 of \<open>CS0\<close>.\<close>

definition self_seen :: "unit car_controller" where
  "self_seen = self0\<lparr>lka_steering_cmd_counter_last := 1\<rparr>"

text \<open>The car state with one-pedal mode active.\<close>

definition CS_one_pedal :: car_state where
  "CS_one_pedal = CS0\<lparr>one_pedal_mode_active := True\<rparr>"

section \<open>Properties of radard.py\<close>

subsection \<open>Interpolation stays between the table values\<close>

lemma takeWhile_prefix_holds:
  assumes "i < length (takeWhile Q xs)"
  shows "Q (xs ! i)"
proof -
  have "takeWhile Q xs ! i \<in> set (takeWhile Q xs)" using assms by simp
  then have "Q (takeWhile Q xs ! i)" by (rule set_takeWhileD [THEN conjunct2])
  then show ?thesis using assms by (simp add: takeWhile_nth)
qed

lemma takeWhile_stops:
  assumes "length (takeWhile Q xs) < length xs"
  shows "\<not> Q (xs ! length (takeWhile Q xs))"
  using assms by (rule nth_length_takeWhile)

lemma convex_between:
  fixes a b s :: real
  assumes "0 \<le> s" "s \<le> 1" "lo \<le> a" "a \<le> hi" "lo \<le> b" "b \<le> hi"
  shows "lo \<le> s * (b - a) + a \<and> s * (b - a) + a \<le> hi"
proof -
  have eq: "s * (b - a) + a = s * b + (1 - s) * a" by (simp add: algebra_simps)
  have "s * lo + (1 - s) * lo \<le> s * b + (1 - s) * a"
    using assms by (intro add_mono mult_left_mono) auto
  moreover have "s * b + (1 - s) * a \<le> s * hi + (1 - s) * hi"
    using assms by (intro add_mono mult_left_mono) auto
  ultimately show ?thesis unfolding eq by (simp add: algebra_simps)
qed

lemma interp_range:
  assumes r: "interp xv xp fp = Some r"
    and b: "\<And>w. w \<in> set fp \<Longrightarrow> lo \<le> w \<and> w \<le> hi"
  shows "lo \<le> r \<and> r \<le> hi"
proof -
  define h where "h = length (takeWhile (\<lambda>p. p < xv) xp)"
  have hle: "h \<le> length xp" unfolding h_def by (rule length_takeWhile_le)
  consider (top) "h = length xp" | (bot) "h < length xp" "h = 0" | (mid) "h < length xp" "0 < h"
    using hle by linarith
  then show ?thesis
  proof cases
    case top
    with r have "fp \<noteq> []" "r = last fp"
      by (auto simp: interp_def Let_def h_def py_last_def split: if_splits)
    then show ?thesis using b by simp
  next
    case bot
    with r have "fp \<noteq> []" "r = hd fp"
      by (auto simp: interp_def Let_def h_def py_first_def split: if_splits list.splits)
    then show ?thesis using b by simp
  next
    case mid
    with r have hf: "h < length fp"
      and req: "r = (xv - xp ! (h - 1)) * (fp ! h - fp ! (h - 1)) / (xp ! h - xp ! (h - 1)) + fp ! (h - 1)"
      by (auto simp: interp_def Let_def h_def split: if_splits)
    have low: "xp ! (h - 1) < xv"
      using takeWhile_prefix_holds [of "h - 1" "\<lambda>p. p < xv" xp] mid by (simp add: h_def)
    have up: "xv \<le> xp ! h"
      using takeWhile_stops [of "\<lambda>p. p < xv" xp] mid by (simp add: h_def)
    define s where "s = (xv - xp ! (h - 1)) / (xp ! h - xp ! (h - 1))"
    have s0: "0 \<le> s" and s1: "s \<le> 1" using low up by (auto simp: s_def)
    have rs: "r = s * (fp ! h - fp ! (h - 1)) + fp ! (h - 1)"
      unfolding req s_def by simp
    have "fp ! h \<in> set fp" "fp ! (h - 1) \<in> set fp" using hf by auto
    then have "lo \<le> fp ! h" "fp ! h \<le> hi" "lo \<le> fp ! (h - 1)" "fp ! (h - 1) \<le> hi"
      using b by auto
    then show ?thesis unfolding rs using convex_between [OF s0 s1] by blast
  qed
qed

lemma interp_total:
  assumes "xp \<noteq> []" "length xp \<le> length fp"
  shows "\<exists>r. interp xv xp fp = Some r"
proof -
  have "fp \<noteq> []" using assms by auto
  then obtain f fs where "fp = f # fs" by (cases fp) auto
  then show ?thesis
    using assms length_takeWhile_le [of "\<lambda>p. p < xv" xp]
    by (auto simp: interp_def Let_def py_last_def py_first_def)
qed

subsection \<open>Vision to radar association is total\<close>

lemma laplacian_cdf_total: "\<exists>r. laplacian_cdf xv mu b = Some r"
  by (simp add: laplacian_cdf_def py_div_def Let_def max_def)

lemma those_map_total:
  "(\<And>a. a \<in> set xs \<Longrightarrow> \<exists>r. f a = Some r) \<Longrightarrow> \<exists>ys. those (map f xs) = Some ys \<and> length ys = length xs"
proof (induction xs)
  case Nil
  then show ?case by simp
next
  case (Cons a xs)
  then obtain r where r: "f a = Some r" by auto
  from Cons obtain ys where "those (map f xs) = Some ys" "length ys = length xs" by auto
  with r show ?case by simp
qed

lemma prob_cluster_total:
  assumes "xStd lead \<noteq> []" "y lead \<noteq> []" "yStd lead \<noteq> []" "v lead \<noteq> []" "vStd lead \<noteq> []"
  shows "\<exists>r. prob_cluster ve off lead c = Some r"
proof -
  obtain a as where a: "xStd lead = a # as" using assms by (cases "xStd lead") auto
  obtain b bs where b: "y lead = b # bs" using assms by (cases "y lead") auto
  obtain c' cs where c: "yStd lead = c' # cs" using assms by (cases "yStd lead") auto
  obtain d ds where d: "v lead = d # ds" using assms by (cases "v lead") auto
  obtain e es where e: "vStd lead = e # es" using assms by (cases "vStd lead") auto
  obtain r1 where r1: "laplacian_cdf (dRel c) off a = Some r1" using laplacian_cdf_total by blast
  obtain r2 where r2: "laplacian_cdf (yRel c) (- b) c' = Some r2" using laplacian_cdf_total by blast
  obtain r3 where r3: "laplacian_cdf (vRel c + ve) d e = Some r3" using laplacian_cdf_total by blast
  show ?thesis
    by (simp add: prob_cluster_def py_first_def a b c d e r1 r2 r3)
qed

lemma max_by_prob_total:
  assumes "clusters \<noteq> []" "\<And>c. c \<in> set clusters \<Longrightarrow> \<exists>r. p c = Some r"
  shows "\<exists>c. max_by_prob p clusters = Some c"
proof -
  obtain ks where ks: "those (map p clusters) = Some ks" "length ks = length clusters"
    using those_map_total [of clusters p] assms(2) by blast
  with assms(1) have "zip ks clusters \<noteq> []" by (cases ks; cases clusters) auto
  then obtain kc where "py_max_key fst (zip ks clusters) = Some kc"
    by (cases "zip ks clusters") (auto simp: py_max_key_def)
  with ks show ?thesis by (simp add: max_by_prob_def)
qed

text \<open>
  Claim C9. \<open>match_vision_to_cluster\<close> returns (a cluster or Python's \<open>None\<close>) for every
  non-empty cluster list and every vision lead whose six arrays have an entry at index 0,
  whatever the standard deviations are, zero included: \<open>laplacian_cdf\<close> divides by
  \<open>max(b, 1e-4)\<close>, which is never zero, so every score is defined.
\<close>

theorem match_vision_to_cluster_total:
  assumes "clusters \<noteq> []"
    and "x lead \<noteq> []" "y lead \<noteq> []" "v lead \<noteq> []"
    and "xStd lead \<noteq> []" "yStd lead \<noteq> []" "vStd lead \<noteq> []"
  shows "(\<exists>r. match_vision_to_cluster RADAR_TO_CAMERA ve lead clusters = Some r)
         \<and> (\<forall>xv mu b. \<exists>p. laplacian_cdf xv mu b = Some p)
         \<and> (\<forall>off c. \<exists>p. prob_cluster ve off lead c = Some p)"
proof -
  obtain x0 xs where x0: "x lead = x0 # xs" using assms by (cases "x lead") auto
  obtain v0 vs where v0: "v lead = v0 # vs" using assms by (cases "v lead") auto
  obtain c where c: "max_by_prob (prob_cluster ve (x0 - RADAR_TO_CAMERA) lead) clusters = Some c"
    using max_by_prob_total [OF assms(1)] prob_cluster_total assms by blast
  have "\<exists>r. match_vision_to_cluster RADAR_TO_CAMERA ve lead clusters = Some r"
    by (simp add: match_vision_to_cluster_def py_first_def x0 v0 c Let_def)
  then show ?thesis
    using laplacian_cdf_total prob_cluster_total assms by blast
qed

theorem match_vision_to_cluster_total_witness:
  "[c0] \<noteq> [] \<and> xStd lead0 = [0] \<and> yStd lead0 = [0] \<and> vStd lead0 = [0]
   \<and> (\<exists>r. match_vision_to_cluster (152 / 100) 30 lead0 [c0] = Some r)"
  using match_vision_to_cluster_total [of "[c0]" lead0 "152 / 100" 30]
  by (simp add: lead0_def)

subsection \<open>Long-range smoothing passes model leads through\<close>

lemma update_alpha_total:
  assumes "0 < fof_dt f" "0 \<le> rc"
  shows "update_alpha f rc = Some (f\<lparr>fof_alpha := fof_dt f / (rc + fof_dt f)\<rparr>)"
  using assms by (simp add: update_alpha_def py_div_def)

lemma filter_lead_total:
  assumes "filters_ok self" "0 \<le> alpha"
  shows "\<exists>s. filter_lead self alpha ld = Some s"
  using assms by (simp add: filter_lead_def filters_ok_def update_alpha_total)

lemma filters_ok_reset: "filters_ok (LongRangeLead_reset self) = filters_ok self"
  by (simp add: filters_ok_def LongRangeLead_reset_def)

text \<open>
  Claim C5. For a lead with status true and \<open>checkSource = modelLead\<close>, and every filter
  state whose time steps are positive (as the constructor leaves them), \<open>LongRangeLead.update\<close>
  returns a lead with the six kinematic fields of the input: the filtered values are not
  written over them.
\<close>

theorem LongRangeLead_passthrough:
  assumes "filters_ok self" and "status ld" and "checkSource ld = ''modelLead''"
  shows "\<exists>ld' self'. LongRangeLead_update self ld = Some (ld', self')
           \<and> dRel ld' = dRel ld \<and> vRel ld' = vRel ld \<and> vLead ld' = vLead ld
           \<and> vLeadK ld' = vLeadK ld \<and> aLeadK ld' = aLeadK ld \<and> aLeadTau ld' = aLeadTau ld"
proof -
  have rn: "reset_needed self ld = Some True"
    using assms(3) by (simp add: reset_needed_def)
  obtain alpha where al: "interp (dRel ld) DREL_BP ALPHA_V = Some alpha"
    using interp_total [of DREL_BP ALPHA_V] by (auto simp: DREL_BP_def ALPHA_V_def)
  have "0 \<le> alpha \<and> alpha \<le> 1"
    by (rule interp_range [OF al]) (auto simp: ALPHA_V_def)
  then obtain s where s: "filter_lead (LongRangeLead_reset self) alpha ld = Some s"
    using filter_lead_total [of "LongRangeLead_reset self" alpha ld] assms(1)
    by (auto simp: filters_ok_reset)
  show ?thesis
    using assms(2,3) by (simp add: LongRangeLead_update_def rn al s)
qed

theorem LongRangeLead_passthrough_witness:
  "filters_ok lrl0 \<and> status (get_RadarState c0 (9 / 10) ''radar'' ''modelLead'')
   \<and> (\<exists>ld' self'. LongRangeLead_update lrl0 (get_RadarState c0 (9 / 10) ''radar'' ''modelLead'')
                      = Some (ld', self')
        \<and> dRel ld' = 38 \<and> vRel ld' = - 5 \<and> vLead ld' = 25 \<and> vLeadK ld' = 25
        \<and> aLeadK ld' = 0 \<and> aLeadTau ld' = 0)"
  using LongRangeLead_passthrough [of lrl0 "get_RadarState c0 (9 / 10) ''radar'' ''modelLead''"]
  by (simp add: filters_ok_def lrl0_def fof0_def get_RadarState_def c0_def)

subsection \<open>The track table follows the reading\<close>

lemma keys_ar_pts_fold:
  "fst ` set (fold (\<lambda>pt m. AList.update (trackId pt) (g pt) m) pts m0)
     = fst ` set m0 \<union> trackId ` set pts"
  by (induction pts arbitrary: m0) (auto simp: dom_update)

lemma keys_ar_pts_of: "fst ` set (ar_pts_of pts) = trackId ` set pts"
  unfolding ar_pts_of_def by (simp add: keys_ar_pts_fold)

lemma keys_remove_missing:
  "fst ` set (remove_missing ar_pts trks) = fst ` set trks \<inter> fst ` set ar_pts"
  by (auto simp: remove_missing_def map_of_eq_None_iff)

lemma key_present: "map_of trks k = Some t \<Longrightarrow> insert k (fst ` set trks) = fst ` set trks"
  by (auto dest: map_of_SomeD intro: rev_image_eqI)

lemma keys_compute_track:
  assumes "compute_track ops hist p trks = Some trks'"
  shows "fst ` set trks' = insert (fst p) (fst ` set trks)"
proof -
  obtain ids d yr vr meas where p: "p = (ids, d, yr, vr, meas)" by (cases p) auto
  from assms p obtain h0 where h0: "py_first hist = Some h0"
    by (auto simp: compute_track_def split: Option.bind_splits)
  show ?thesis
  proof (cases "map_of trks ids")
    case None
    with assms p h0 obtain t where
      "trks' = AList.update ids t (AList.update ids (Track ops (vr + h0)) trks)"
      by (auto simp: compute_track_def Let_def split: Option.bind_splits)
    then show ?thesis using p by (simp add: dom_update)
  next
    case (Some t0)
    with assms p h0 obtain t where "trks' = AList.update ids t trks"
      by (auto simp: compute_track_def Let_def split: Option.bind_splits)
    then show ?thesis using p by (simp add: dom_update)
  qed
qed

lemma keys_fold_compute_track:
  assumes "fold_opt (compute_track ops hist) ps trks = Some trks'"
  shows "fst ` set trks' = fst ` set trks \<union> fst ` set ps"
  using assms
proof (induction ps arbitrary: trks)
  case Nil
  then show ?case by simp
next
  case (Cons p ps)
  then obtain t1 where t1: "compute_track ops hist p trks = Some t1"
    and rest: "fold_opt (compute_track ops hist) ps t1 = Some trks'"
    by (auto split: Option.bind_splits)
  show ?case using Cons.IH [OF rest] keys_compute_track [OF t1] by auto
qed

lemma keys_reset_new_track:
  assumes "reset_new_track ops cluster_idxs idens clusters idx trks = Some trks'"
  shows "fst ` set trks' = fst ` set trks"
proof -
  from assms obtain iden t where t: "map_of trks iden = Some t"
    and c: "trks' = trks \<or> (\<exists>t'. trks' = AList.update iden t' trks)"
    by (auto simp: reset_new_track_def split: Option.bind_splits if_splits)
  from c show ?thesis
  proof
    assume "trks' = trks"
    then show ?thesis by simp
  next
    assume "\<exists>t'. trks' = AList.update iden t' trks"
    then obtain t' where "trks' = AList.update iden t' trks" ..
    then have "fst ` set trks' = insert iden (fst ` set trks)" by (simp add: dom_update)
    then show ?thesis using key_present [OF t] by simp
  qed
qed

lemma keys_fold_reset_new_track:
  assumes "fold_opt (reset_new_track ops cluster_idxs idens clusters) is trks = Some trks'"
  shows "fst ` set trks' = fst ` set trks"
  using assms
proof (induction "is" arbitrary: trks)
  case Nil
  then show ?case by simp
next
  case (Cons i "is")
  then obtain t1 where t1: "reset_new_track ops cluster_idxs idens clusters i trks = Some t1"
    and rest: "fold_opt (reset_new_track ops cluster_idxs idens clusters) is t1 = Some trks'"
    by (auto split: Option.bind_splits)
  show ?case using Cons.IH [OF rest] keys_reset_new_track [OF t1] by simp
qed

text \<open>
  Claim C4. After a tick of \<open>RadarD.update\<close> the keys of the track table are exactly the
  track ids of the current reading; so an id that was in the table and is not in the
  reading is gone.
\<close>

theorem tracks_keys_after_tick:
  assumes "RadarD_update ops cluster_points_centroid self sm rr_points = Some (self', clusters)"
  shows "fst ` set (tracks self') = trackId ` set rr_points
         \<and> (\<forall>ids \<in> fst ` set (tracks self).
               ids \<notin> trackId ` set rr_points \<longrightarrow> ids \<notin> fst ` set (tracks self'))"
proof -
  from assms obtain hist trks0 trks2 trks3 cluster_idxs idens n where
    t2: "fold_opt (compute_track ops hist) (ar_pts_of rr_points)
           (remove_missing (ar_pts_of rr_points) trks0) = Some trks2"
    and t3: "fold_opt (reset_new_track ops cluster_idxs idens clusters) [0 ..< n] trks2
           = Some trks3"
    and s': "tracks self' = trks3"
    unfolding RadarD_update_def Let_def
    by (fastforce split: Option.bind_splits prod.splits)
  have "fst ` set trks3 = fst ` set trks2" by (rule keys_fold_reset_new_track [OF t3])
  also have "\<dots> = fst ` set (remove_missing (ar_pts_of rr_points) trks0)
                    \<union> fst ` set (ar_pts_of rr_points)"
    by (rule keys_fold_compute_track [OF t2])
  also have "\<dots> = trackId ` set rr_points"
    by (auto simp: keys_remove_missing keys_ar_pts_of)
  finally show ?thesis using s' by simp
qed

theorem tracks_keys_after_tick_witness:
  "fst ` set (tracks radard7) = {7}
   \<and> (\<exists>self' clusters. RadarD_update ops0 cpc_one radard7 sm0 pts9 = Some (self', clusters)
        \<and> fst ` set (tracks self') = {9} \<and> 7 \<notin> fst ` set (tracks self'))"
proof -
  have e: "RadarD_update ops0 cpc_one radard7 sm0 pts9 =
     Some (\<lparr>current_time = 1 / 500000, tracks = [(9, (28, 1))], v_ego = 30, v_ego_hist = [30],
            delay = 0, ready = True\<rparr>, [Some [9]])"
    by (simp add: RadarD_update_def ops0_def cpc_one_def radard7_def sm0_def pts9_def
        py_max_list_def deque_append_def ar_pts_of_def remove_missing_def compute_track_def
        py_first_def cluster_tracks_def reset_new_track_def Let_def)
  show ?thesis
    using tracks_keys_after_tick [OF e] e by (simp add: radard7_def pts9_def)
qed

subsection \<open>A single track is not clustered\<close>

lemma ar_pts_single_fold:
  assumes "\<And>pt. pt \<in> set pts \<Longrightarrow> trackId pt = k"
  shows "\<exists>w. fold (\<lambda>pt m. AList.update (trackId pt) (g pt) m) pts [(k, w0)] = [(k, w)]"
  using assms by (induction pts arbitrary: w0) auto

lemma ar_pts_single:
  assumes "trackId ` set pts = {k}"
  shows "\<exists>w. ar_pts_of pts = [(k, w)]"
proof -
  from assms obtain p ps where pts: "pts = p # ps" by (cases pts) auto
  have all: "\<And>pt. pt \<in> set pts \<Longrightarrow> trackId pt = k" using assms by auto
  then have "trackId p = k" "\<And>pt. pt \<in> set ps \<Longrightarrow> trackId pt = k" using pts by auto
  then show ?thesis
    using ar_pts_single_fold [of ps k "\<lambda>pt. (pt_dRel pt, pt_yRel pt, pt_vRel pt, measured pt)"]
    by (simp add: ar_pts_of_def pts)
qed

lemma remove_missing_single:
  assumes "distinct (map fst trks)"
  shows "remove_missing [(k, w)] trks = [] \<or> (\<exists>t. remove_missing [(k, w)] trks = [(k, t)])"
  using assms
proof (induction trks)
  case Nil
  then show ?case by (simp add: remove_missing_def)
next
  case (Cons a trks)
  then have ih: "remove_missing [(k, w)] trks = [] \<or> (\<exists>t. remove_missing [(k, w)] trks = [(k, t)])"
    by simp
  show ?case
  proof (cases "fst a = k")
    case True
    with Cons.prems have "k \<notin> fst ` set trks" by auto
    then have "remove_missing [(k, w)] trks = []"
      by (auto simp: remove_missing_def filter_empty_conv)
    then show ?thesis using True by (cases a) (simp add: remove_missing_def)
  next
    case False
    then show ?thesis using ih by (simp add: remove_missing_def)
  qed
qed

lemma compute_track_single:
  assumes "hist \<noteq> []" and "trks = [] \<or> (\<exists>t. trks = [(k, t)])"
  shows "\<exists>t'. fold_opt (compute_track ops hist) [(k, w)] trks = Some [(k, t')]"
proof -
  obtain h hs where "hist = h # hs" using assms(1) by (cases hist) auto
  then show ?thesis
    using assms(2) by (cases w) (auto simp: compute_track_def py_first_def Let_def)
qed

lemma single_track_stage:
  fixes ops :: "'t track_ops" and t :: 't
  shows "\<exists>t'. cluster_tracks cpc [kp] [k] = Some ([0], [Some [k]])
        \<and> fold_opt (reset_new_track ops [0] [k] [Some [k]]) [0 ..< length [kp]] [(k, t)]
            = Some [(k, t')]"
  by (simp add: cluster_tracks_def py_first_def reset_new_track_def)

text \<open>
  Claim C7. When the reading has exactly one track id, \<open>RadarD.update\<close> returns one cluster
  holding that track, whatever the clustering primitive is, also one that never returns:
  the primitive is not called. The table is a dict (distinct keys), and the tick reads the
  message times and the ego speed history, which are not empty.
\<close>

theorem single_track_bypasses_clustering:
  assumes "trackId ` set rr_points = {k}"
    and "distinct (map fst (tracks self))"
    and "logMonoTime sm \<noteq> []" and "v_ego_hist self \<noteq> []"
  shows "\<exists>self'. RadarD_update ops cluster_points_centroid self sm rr_points
                   = Some (self', [Some [k]])
                 \<and> map fst (tracks self') = [k]"
proof -
  obtain w where ar: "ar_pts_of rr_points = [(k, w)]" using ar_pts_single [OF assms(1)] ..
  obtain mt where mt: "py_max_list (map real_of_int (logMonoTime sm)) = Some mt"
    using assms(3) by (cases "logMonoTime sm") (auto simp: py_max_list_def)
  define hist where
    "hist = (if updated_carState sm
             then deque_append (delay self + 1) (v_ego_hist self) (carState_vEgo sm)
             else v_ego_hist self)"
  have hist: "hist \<noteq> []"
    using assms(4) by (auto simp: hist_def deque_append_def Let_def)
  obtain t2 where t2: "fold_opt (compute_track ops hist) [(k, w)]
                         (remove_missing [(k, w)] (tracks self)) = Some [(k, t2)]"
    using compute_track_single [OF hist remove_missing_single [OF assms(2)]] by blast
  obtain t3 where cl: "cluster_tracks cluster_points_centroid [get_key_for_cluster ops t2] [k]
                         = Some ([0], [Some [k]])"
    and t3: "fold_opt (reset_new_track ops [0] [k] [Some [k]]) [0 ..< length [get_key_for_cluster ops t2]]
               [(k, t2)] = Some [(k, t3)]"
    using single_track_stage [where cpc = cluster_points_centroid and kp = "get_key_for_cluster ops t2"
        and k = k and ops = ops and t = t2] by auto
  show ?thesis
    using t2 t3 cl
    by (auto simp: RadarD_update_def Let_def mt ar hist_def simp del: fold_opt.simps)
qed

theorem single_track_bypasses_clustering_witness:
  "trackId ` set pts7 = {7} \<and> distinct (map fst (tracks radard7))
   \<and> logMonoTime sm0 \<noteq> [] \<and> v_ego_hist radard7 \<noteq> []
   \<and> (\<exists>self'. RadarD_update ops0 cpc_hang radard7 sm0 pts7 = Some (self', [Some [7]])
         \<and> map fst (tracks self') = [7])"
  using single_track_bypasses_clustering [of pts7 7 radard7 sm0 ops0 cpc_hang]
  by (simp add: pts7_def radard7_def sm0_def)

subsection \<open>Path-adjacent leads with equal lateral offsets\<close>

text \<open>
  What the three lists do satisfy: the centre entries lie within half the lane width, the
  centre list is ordered by \<open>dRel\<close>, and the left and right lists by \<open>abs(dPath)\<close>.
\<close>

lemma set_update_subset: "set (AList.update k w al) \<subseteq> insert (k, w) (set al)"
  by (induction al) auto

lemma update_keeps_pred:
  assumes "\<forall>(k, l) \<in> set al. Q k l" and "Q k0 l0"
  shows "\<forall>(k, l) \<in> set (AList.update k0 l0 al). Q k l"
  using assms set_update_subset [of k0 l0 al] by blast

lemma bucket_lead_keys:
  assumes L: "\<forall>(k, l) \<in> set L. k = \<bar>dPath l\<bar>"
    and C: "\<forall>(k, l) \<in> set C. k = \<bar>dPath l\<bar> \<and> \<bar>dPath l\<bar> < hlw"
    and R: "\<forall>(k, l) \<in> set R. k = \<bar>dPath l\<bar>"
    and b: "bucket_lead hlw ld (L, C, R) = (L', C', R')"
  shows "(\<forall>(k, l) \<in> set L'. k = \<bar>dPath l\<bar>)
       \<and> (\<forall>(k, l) \<in> set C'. k = \<bar>dPath l\<bar> \<and> \<bar>dPath l\<bar> < hlw)
       \<and> (\<forall>(k, l) \<in> set R'. k = \<bar>dPath l\<bar>)"
proof (cases "\<bar>dPath ld\<bar> < hlw \<and> vLeadK ld > - 1")
  case True
  with b have e: "L' = L" "C' = AList.update \<bar>dPath ld\<bar> ld C" "R' = R"
    by (simp_all add: bucket_lead_def)
  have "\<forall>(k, l) \<in> set C'. k = \<bar>dPath l\<bar> \<and> \<bar>dPath l\<bar> < hlw"
    unfolding e using C True by (intro update_keeps_pred) auto
  then show ?thesis using L R e by simp
next
  case False
  show ?thesis
  proof (cases "dPath ld < 0")
    case True
    with b False have e: "L' = AList.update \<bar>dPath ld\<bar> ld L" "C' = C" "R' = R"
      by (auto simp: bucket_lead_def)
    have "\<forall>(k, l) \<in> set L'. k = \<bar>dPath l\<bar>"
      unfolding e using L by (intro update_keeps_pred) auto
    then show ?thesis using C R e by simp
  next
    case nl: False
    with b False have e: "L' = L" "C' = C" "R' = AList.update \<bar>dPath ld\<bar> ld R"
      by (auto simp: bucket_lead_def)
    have "\<forall>(k, l) \<in> set R'. k = \<bar>dPath l\<bar>"
      unfolding e using R by (intro update_keeps_pred) auto
    then show ?thesis using L C e by simp
  qed
qed

lemma bucket_clusters_keys:
  assumes "bucket_clusters md_x md_y cy hlw cs (L, C, R) = Some (L', C', R')"
    and "\<forall>(k, l) \<in> set L. k = \<bar>dPath l\<bar>"
    and "\<forall>(k, l) \<in> set C. k = \<bar>dPath l\<bar> \<and> \<bar>dPath l\<bar> < hlw"
    and "\<forall>(k, l) \<in> set R. k = \<bar>dPath l\<bar>"
  shows "(\<forall>(k, l) \<in> set L'. k = \<bar>dPath l\<bar>)
       \<and> (\<forall>(k, l) \<in> set C'. k = \<bar>dPath l\<bar> \<and> \<bar>dPath l\<bar> < hlw)
       \<and> (\<forall>(k, l) \<in> set R'. k = \<bar>dPath l\<bar>)"
  using assms
proof (induction cs arbitrary: L C R)
  case Nil
  then show ?case by simp
next
  case (Cons c cs)
  from Cons.prems(1) obtain ld where
    rest: "bucket_clusters md_x md_y cy hlw cs (bucket_lead hlw ld (L, C, R)) = Some (L', C', R')"
    by (auto split: Option.bind_splits)
  obtain L1 C1 R1 where b: "bucket_lead hlw ld (L, C, R) = (L1, C1, R1)"
    by (cases "bucket_lead hlw ld (L, C, R)") auto
  have "(\<forall>(k, l) \<in> set L1. k = \<bar>dPath l\<bar>)
       \<and> (\<forall>(k, l) \<in> set C1. k = \<bar>dPath l\<bar> \<and> \<bar>dPath l\<bar> < hlw)
       \<and> (\<forall>(k, l) \<in> set R1. k = \<bar>dPath l\<bar>)"
    using Cons.prems(2-4) by (intro bucket_lead_keys [OF _ _ _ b])
  then show ?case using Cons.IH [of L1 C1 R1] rest b by simp
qed

lemma by_sorted_keys_sorted:
  assumes "\<forall>(k, l) \<in> set L. k = \<bar>dPath l\<bar>"
  shows "sorted (map (\<lambda>l. \<bar>dPath l\<bar>) (by_sorted_keys L))"
proof -
  have "map (\<lambda>l. \<bar>dPath l\<bar>) (by_sorted_keys L) = map fst (sort_key fst L)"
    using assms by (auto simp: by_sorted_keys_def)
  then show ?thesis by simp
qed

lemma adjacent_leads_sound:
  assumes "get_path_adjacent_leads n ve md lw cs = Some (ll, lc, lr)"
  shows "(\<forall>l \<in> set lc. \<bar>dPath l\<bar> < lw / 2) \<and> sorted (map dRel lc)
       \<and> sorted (map (\<lambda>l. \<bar>dPath l\<bar>) ll) \<and> sorted (map (\<lambda>l. \<bar>dPath l\<bar>) lr)"
proof (cases "length cs = 0")
  case True
  with assms show ?thesis by (simp add: get_path_adjacent_leads_def)
next
  case False
  with assms obtain mx my cy L C R where
    b: "bucket_clusters mx my cy (lw / 2) cs ([], [], []) = Some (L, C, R)"
    and r: "ll = by_sorted_keys L" "lc = sort_key dRel (map snd C)" "lr = by_sorted_keys R"
    by (auto simp: get_path_adjacent_leads_def Let_def split: Option.bind_splits prod.splits)
  have k: "(\<forall>(k, l) \<in> set L. k = \<bar>dPath l\<bar>)
       \<and> (\<forall>(k, l) \<in> set C. k = \<bar>dPath l\<bar> \<and> \<bar>dPath l\<bar> < lw / 2)
       \<and> (\<forall>(k, l) \<in> set R. k = \<bar>dPath l\<bar>)"
    by (rule bucket_clusters_keys [OF b]) auto
  have "\<forall>l \<in> set lc. \<bar>dPath l\<bar> < lw / 2" using k r(2) by auto
  then show ?thesis
    using k by (simp add: r by_sorted_keys_sorted)
qed

text \<open>
  Claim C6. The three lists of \<open>get_path_adjacent_leads\<close> are built from dicts keyed by
  \<open>abs(dPath)\<close>. Two clusters of the same list with the same \<open>abs(dPath)\<close> share a key, and
  the second replaces the first: of the clusters \<open>cA\<close> (10 m ahead) and \<open>cB\<close> (20 m ahead),
  both 2 m to the left of a straight path and outside the lane, only \<open>cB\<close> is returned, so
  the lists do not cover the cluster set.
\<close>

lemma path_x_props: "length path_x = 33" "last path_x = 192" "path_x \<noteq> []"
  by (simp_all add: path_x_def)

lemma interp_straight_path:
  assumes "0 < d" "d \<le> 30"
  shows "interp d path_x (replicate 33 0) = Some 0"
proof -
  have "\<exists>h. h < 33 \<and> length (takeWhile (\<lambda>p. p < d) path_x) = h \<and> 0 < h"
    using assms by (auto simp: path_x_def)
  then obtain h where h: "h < 33" "length (takeWhile (\<lambda>p. p < d) path_x) = h" "0 < h" by blast
  then show ?thesis
    by (simp add: interp_def Let_def path_x_props)
qed

lemma path_lead_left:
  assumes "0 < dRel c" "dRel c \<le> 30"
  shows "\<exists>ld. path_lead path_x (replicate 33 0) cy c = Some ld \<and> dRel ld = dRel c
              \<and> dPath ld = - yRel c \<and> vLeadK ld = vLeadK c"
proof -
  have i: "interp (dRel c) path_x (replicate 33 0) = Some 0"
    using interp_straight_path [OF assms] by simp
  show ?thesis
    using assms by (simp add: path_lead_def py_last_def path_x_props i get_RadarState_def Let_def)
qed

theorem adjacent_leads_drop_cluster:
  "map_option (\<lambda>(ll, lc, lr). (map dRel ll, map dRel lc, map dRel lr))
     (get_path_adjacent_leads 33 30 (Some md0) (37 / 10) [cA, cB]) = Some ([20], [], [])"
proof -
  define cy where
    "cy = Some (path_x, map (\<lambda>t. t / 2)
                 (map2 (+) (replicate 33 (- (185 / 100))) (replicate 33 (185 / 100 :: real))))"
  obtain la where la: "path_lead path_x (replicate 33 0) cy cA = Some la"
    "dRel la = 10" "dPath la = - 2" "vLeadK la = 20"
    using path_lead_left [of cA cy] by (auto simp: cA_def)
  obtain lb where lb: "path_lead path_x (replicate 33 0) cy cB = Some lb"
    "dRel lb = 20" "dPath lb = - 2" "vLeadK lb = 20"
    using path_lead_left [of cB cy] by (auto simp: cB_def)
  have c: "lane_center 33 (Some md0) (37 / 10) = Some cy"
    by (simp add: lane_center_def md0_def path_x_props py_nth_def MIN_LANE_PROB_def np_add_def
        Let_def cy_def)
  have px: "position_x md0 = path_x" "position_y md0 = replicate 33 0"
    by (simp_all add: md0_def)
  show ?thesis
    by (simp add: get_path_adjacent_leads_def c px la lb bucket_lead_def by_sorted_keys_def Let_def)
qed

section \<open>Properties of carcontroller.py\<close>

subsection \<open>What each stage writes\<close>

lemma steering_cases:
  assumes "steering P ext enabled CS frame act self = Some (self1, sends1)"
  shows "(lka_steering_cmd_counter CS \<noteq> lka_steering_cmd_counter_last self
            \<and> self1 = self\<lparr>lka_steering_cmd_counter_last := lka_steering_cmd_counter CS\<rparr>
            \<and> sends1 = [])
       \<or> (lka_steering_cmd_counter CS = lka_steering_cmd_counter_last self
            \<and> STEER_STEP P \<noteq> 0 \<and> frame mod STEER_STEP P \<noteq> 0 \<and> self1 = self \<and> sends1 = [])
       \<or> (lka_steering_cmd_counter CS = lka_steering_cmd_counter_last self
            \<and> STEER_STEP P \<noteq> 0 \<and> frame mod STEER_STEP P = 0
            \<and> lka_steering_cmd_counter_last self1 = lka_steering_cmd_counter_last self
            \<and> (\<exists>a. sends1 = [steering_control a ((lka_steering_cmd_counter CS + 1) mod 4)
                                 (lkas_enabled_of P enabled CS)]
                    \<and> apply_steer_last self1 = a))"
  using assms
  by (auto simp: steering_def py_mod_def Let_def split: if_splits)

lemma steering_keeps:
  assumes "steering P ext enabled CS frame act self = Some (self1, sends1)"
  shows "one_pedal_pid self1 = one_pedal_pid self \<and> one_pedal_decel self1 = one_pedal_decel self
       \<and> one_pedal_decel_in self1 = one_pedal_decel_in self
       \<and> apply_gas self1 = apply_gas self \<and> apply_brake self1 = apply_brake self
       \<and> lead_accel_last_t self1 = lead_accel_last_t self"
  using assms
  by (auto simp: steering_def py_mod_def Let_def split: if_splits)




lemma lka_icon_keeps:
  assumes "lka_icon P CS frame act hud_alert self = Some (self1, sends)"
  shows "self1 = self \<or> (\<exists>st. self1 = self\<lparr>lka_icon_status_last := st\<rparr>)"
    and "sends = [] \<or> (\<exists>a b c. sends = [lka_icon_command a b c])"
  using assms
  by (auto simp: lka_icon_def Let_def split: if_splits Option.bind_splits)


lemma gas_regen_prep_car_state:
  assumes "gas_regen_prep P ext enabled CS act t self = Some (self1, CS1, np)"
  shows "\<exists>a b c. CS1 = CS\<lparr>one_pedal_mode_active_last := a, coast_one_pedal_mode_active_last := b,
                             brake_cmd := c\<rparr>"
proof (cases "\<not> enabled \<or> pause_long_on_gas_press CS")
  case True
  with assms have "CS1 = CS\<lparr>brake_cmd := apply_brake self1\<rparr>"
    by (auto simp: gas_regen_prep_def)
  then have "CS1 = CS\<lparr>one_pedal_mode_active_last := one_pedal_mode_active_last CS,
                      coast_one_pedal_mode_active_last := coast_one_pedal_mode_active_last CS,
                      brake_cmd := apply_brake self1\<rparr>"
    by simp
  then show ?thesis by blast
next
  case False
  with assms obtain CSm where l: "longitudinal P ext CS act t self = Some (self1, CSm, np)"
    and c: "CS1 = CSm\<lparr>brake_cmd := apply_brake self1\<rparr>"
    by (auto simp: gas_regen_prep_def split: Option.bind_splits)
  from l have "CSm = CS\<lparr>one_pedal_mode_active_last := one_pedal_mode_active CS,
                          coast_one_pedal_mode_active_last := coast_one_pedal_mode_active CS\<rparr>"
    by (auto simp: longitudinal_def Let_def split: Option.bind_splits prod.splits)
  with c show ?thesis by blast
qed

lemma brake_indicator_car_state:
  assumes "brake_indicator P CS self = Some CS1"
  shows "\<exists>p. CS1 = CS\<lparr>apply_brake_percent := p\<rparr>"
proof (cases "showBrakeIndicator CS")
  case True
  with assms show ?thesis by (auto simp: brake_indicator_def split: Option.bind_splits)
next
  case False
  with assms have "CS1 = CS\<lparr>apply_brake_percent := apply_brake_percent CS\<rparr>"
    by (simp add: brake_indicator_def)
  then show ?thesis by blast
qed

text \<open>The stages of a call that returns.\<close>

lemma update_stages:
  assumes "update P ext t self enabled CS frame act hud_v_cruise hud_show_lanes hud_show_car hud_alert
             = Some (sends, self', CS')"
  obtains self1 sends1 self2 CS2 np CS3 CS4 sends2 CS5 sends3 sends5 sends6 where
    "steering P ext enabled CS frame act self = Some (self1, sends1)"
    "(if frame mod 4 = 0 then gas_regen_prep P ext enabled CS act t self1 else Some (self1, CS, 0))
       = Some (self2, CS2, np)"
    "brake_indicator P CS2 self2 = Some CS3"
    "(if frame mod 4 = 0 then brake_gas_frames P ext enabled CS3 frame np self2 else (CS3, []))
       = (CS4, sends2)"
    "(if frame mod 4 = 0 then dashboard ext enabled CS4 hud_v_cruise hud_show_car hud_alert
      else (CS4, [])) = (CS5, sends3)"
    "keepalive_frames P frame = Some sends5"
    "lka_icon P CS5 frame act hud_alert self2 = Some (self', sends6)"
    "sends = sends1 @ sends2 @ sends3 @ adas_frames CS5 frame self2 @ sends5 @ sends6"
    "CS' = CS5"
  using assms unfolding update_def Let_def
  by (auto split: Option.bind_splits prod.splits)


subsection \<open>Which frames each stage emits\<close>

lemmas frame_kind_defs = is_steering_def is_friction_brake_def is_gas_regen_def

lemma steering_frames_kind:
  assumes "steering P ext enabled CS frame act self = Some (self1, sends1)"
  shows "filter is_friction_brake sends1 = [] \<and> filter is_gas_regen sends1 = []"
  using steering_cases [OF assms] by (auto simp: frame_kind_defs)


lemma adas_frames_kind:
  "filter is_friction_brake (adas_frames CS frame self) = []
   \<and> filter is_gas_regen (adas_frames CS frame self) = []
   \<and> filter is_steering (adas_frames CS frame self) = []"
  by (simp add: adas_frames_def Let_def frame_kind_defs)

lemma keepalive_frames_kind:
  assumes "keepalive_frames P frame = Some sends5"
  shows "filter is_friction_brake sends5 = [] \<and> filter is_gas_regen sends5 = []
       \<and> filter is_steering sends5 = []"
  using assms by (auto simp: keepalive_frames_def frame_kind_defs split: Option.bind_splits if_splits)

lemma lka_icon_frames_kind:
  assumes "lka_icon P CS frame act ha self = Some (self1, sends6)"
  shows "filter is_friction_brake sends6 = [] \<and> filter is_gas_regen sends6 = []
       \<and> filter is_steering sends6 = []"
  using lka_icon_keeps(2) [OF assms] by (auto simp: frame_kind_defs)

lemma brake_gas_frames_kind:
  assumes "brake_gas_frames P ext enabled CS frame np self = (CS1, sends2)"
  shows "filter is_steering sends2 = []"
    and "\<exists>ns fs. filter is_friction_brake sends2
                   = [friction_brake_command (apply_brake self) ((frame div 4) mod 4) ns fs]"
    and "auto_hold enabled CS \<Longrightarrow> filter is_gas_regen sends2 = [] \<and> autoHoldActivated CS1"
    and "\<not> auto_hold enabled CS \<Longrightarrow>
           (\<exists>en fs. filter is_gas_regen sends2
                      = [gas_regen_command (apply_gas self) ((frame div 4) mod 4) en fs])
           \<and> \<not> autoHoldActivated CS1"
  using assms by (auto simp: brake_gas_frames_def Let_def frame_kind_defs split: if_splits)

lemma auto_hold_same:
  "auto_hold enabled (CS\<lparr>one_pedal_mode_active_last := a, coast_one_pedal_mode_active_last := b,
                          brake_cmd := c\<rparr>\<lparr>apply_brake_percent := p\<rparr>) = auto_hold enabled CS"
  by (simp add: auto_hold_def)

subsection \<open>Unfolding the model on concrete inputs\<close>

lemmas stage_defs = update_def steering_def gas_regen_prep_def brake_indicator_def brake_percent_def
  brake_gas_frames_def dashboard_def adas_frames_def keepalive_frames_def lka_icon_def
  auto_hold_def lkas_enabled_of_def

lemmas prim_defs = py_mod_def py_round_def py_int_def interp_def py_last_def py_first_def
  py_nth_def py_div_def py_max_list_def clip_def DT_CTRL_def

lemmas long_defs = longitudinal_def one_pedal_reset_def mode_adjust_def threshold_accel_of_def lead_lockout_factors_def
  lockout_tripped_def lockout_factor_def gas_lockout_tables_def brake_lockout_tables_def
  or_else_def one_pedal_gas_def dl_coasting_def pitch_accel_of_def one_pedal_target_def
  one_pedal_step_def over_speed_factor_def coasting_adjust_def
  ACCEL_PITCH_FACTOR_BP_def ACCEL_PITCH_FACTOR_V_def ONE_PEDAL_ACCEL_PITCH_FACTOR_BP_def
  ONE_PEDAL_ACCEL_PITCH_FACTOR_V_def ONE_PEDAL_ACCEL_PITCH_FACTOR_INCLINE_V_def
  ONE_PEDAL_MODE_DECEL_BP_def ONE_PEDAL_MODE_DECEL_V_def ONE_PEDAL_MIN_SPEED_def
  ONE_PEDAL_DECEL_RATE_LIMIT_UP_def ONE_PEDAL_DECEL_RATE_LIMIT_DOWN_def ONE_PEDAL_MAX_DECEL_def
  ONE_PEDAL_SPEED_ERROR_FACTOR_BP_def ONE_PEDAL_SPEED_ERROR_FACTOR_V_def
  ONE_PEDAL_LEAD_ACCEL_RATE_LOCKOUT_T_def

lemmas input_defs = P0_def ext0_def CS0_def out0_def act0_def self0_def self_seen_def
  CS_one_pedal_def


lemma update_returns_disabled:
  "\<exists>r. update P0 ext0 0 self0 False CS0 4 act0 0 False False none = Some r"
  by (simp add: stage_defs prim_defs input_defs Let_def)

lemma update_returns_one_pedal:
  "\<exists>r. update P0 ext0 (1 / 10) self0 True CS_one_pedal 4 act0 0 False False none = Some r"
  by (simp add: stage_defs prim_defs long_defs input_defs Let_def)

subsection \<open>Steering and the loopback counter\<close>





subsection \<open>The branch taken when not enabled\<close>

text \<open>
  Claim C3. On a tick with \<open>frame % 4 == 0\<close> where \<open>enabled\<close> is false or
  \<open>CS.pause_long_on_gas_press\<close> holds, a call that returns has set \<open>apply_gas\<close> to
  \<open>MAX_ACC_REGEN\<close> and \<open>apply_brake\<close> to 0, has reset the one-pedal PID, and has set
  \<open>one_pedal_decel\<close> and \<open>one_pedal_decel_in\<close> to \<open>CS.out.aEgo\<close>.
\<close>

theorem disabled_branch:
  assumes "update P ext t self enabled CS frame act hud_v_cruise hud_show_lanes hud_show_car hud_alert
             = Some (sends, self', CS')"
    and "frame mod 4 = 0"
    and "\<not> enabled \<or> pause_long_on_gas_press CS"
  shows "apply_gas self' = MAX_ACC_REGEN P \<and> apply_brake self' = 0
       \<and> one_pedal_pid self' = pid_reset ext (one_pedal_pid self)
       \<and> one_pedal_decel self' = aEgo (out CS) \<and> one_pedal_decel_in self' = aEgo (out CS)"
proof -
  from assms(1) obtain self1 sends1 self2 CS2 np CS5 sends6 where
    st: "steering P ext enabled CS frame act self = Some (self1, sends1)"
    and gp: "(if frame mod 4 = 0 then gas_regen_prep P ext enabled CS act t self1
              else Some (self1, CS, 0)) = Some (self2, CS2, np)"
    and li: "lka_icon P CS5 frame act hud_alert self2 = Some (self', sends6)"
    by (rule update_stages)
  from gp assms(2,3) have
    "self2 = self1\<lparr>apply_gas := MAX_ACC_REGEN P, apply_brake := 0,
                    one_pedal_pid := pid_reset ext (one_pedal_pid self1),
                    one_pedal_decel := aEgo (out CS), one_pedal_decel_in := aEgo (out CS)\<rparr>"
    by (auto simp: gas_regen_prep_def)
  then show ?thesis
    using steering_keeps [OF st] lka_icon_keeps(1) [OF li] by auto
qed

theorem disabled_branch_witness:
  "\<exists>sends self' CS'.
     update P0 ext0 0 self0 False CS0 4 act0 0 False False none = Some (sends, self', CS')
     \<and> (4 :: int) mod 4 = 0
     \<and> apply_gas self' = 1404 \<and> apply_brake self' = 0
     \<and> one_pedal_decel self' = - 5 \<and> one_pedal_decel_in self' = - 5"
proof -
  obtain sends s cs where
    e: "update P0 ext0 0 self0 False CS0 4 act0 0 False False none = Some (sends, s, cs)"
    using update_returns_disabled by (metis prod_cases3)
  show ?thesis
    using disabled_branch [OF e] e by (simp add: P0_def CS0_def out0_def)
qed

subsection \<open>Brake and gas frames of a tick\<close>

text \<open>
  Claim C10. A call that returns on a tick with \<open>frame % 4 == 0\<close> has appended exactly one
  friction-brake command, and a gas/regen command exactly when the auto-hold condition of
  line 249 does not hold; \<open>CS.autoHoldActivated\<close> is true afterwards exactly when it holds.
  On the other ticks neither command is emitted.
\<close>

theorem brake_and_gas_frames_per_tick:
  assumes "update P ext t self enabled CS frame act hud_v_cruise hud_show_lanes hud_show_car hud_alert
             = Some (sends, self', CS')"
  shows "(frame mod 4 = 0 \<longrightarrow>
            (\<exists>ns fs. filter is_friction_brake sends
                       = [friction_brake_command (apply_brake self') ((frame div 4) mod 4) ns fs])
            \<and> (auto_hold enabled CS \<longrightarrow> filter is_gas_regen sends = [])
            \<and> (\<not> auto_hold enabled CS \<longrightarrow>
                 (\<exists>en fs. filter is_gas_regen sends
                            = [gas_regen_command (apply_gas self') ((frame div 4) mod 4) en fs]))
            \<and> (autoHoldActivated CS' \<longleftrightarrow> auto_hold enabled CS))
       \<and> (frame mod 4 \<noteq> 0 \<longrightarrow>
            filter is_friction_brake sends = [] \<and> filter is_gas_regen sends = []
            \<and> autoHoldActivated CS' = autoHoldActivated CS)"
proof -
  from assms obtain self1 sends1 self2 CS2 np CS3 CS4 sends2 CS5 sends3 sends5 sends6 where
    st: "steering P ext enabled CS frame act self = Some (self1, sends1)"
    and gp: "(if frame mod 4 = 0 then gas_regen_prep P ext enabled CS act t self1
              else Some (self1, CS, 0)) = Some (self2, CS2, np)"
    and bi: "brake_indicator P CS2 self2 = Some CS3"
    and bg: "(if frame mod 4 = 0 then brake_gas_frames P ext enabled CS3 frame np self2
              else (CS3, [])) = (CS4, sends2)"
    and da: "(if frame mod 4 = 0 then dashboard ext enabled CS4 hud_v_cruise hud_show_car hud_alert
              else (CS4, [])) = (CS5, sends3)"
    and ka: "keepalive_frames P frame = Some sends5"
    and li: "lka_icon P CS5 frame act hud_alert self2 = Some (self', sends6)"
    and sends: "sends = sends1 @ sends2 @ sends3 @ adas_frames CS5 frame self2 @ sends5 @ sends6"
    and cs': "CS' = CS5"
    by (rule update_stages)
  have fb: "filter is_friction_brake sends = filter is_friction_brake sends2"
    and gr: "filter is_gas_regen sends = filter is_gas_regen sends2"
    using steering_frames_kind [OF st] adas_frames_kind [of CS5 frame self2]
      keepalive_frames_kind [OF ka] lka_icon_frames_kind [OF li] da
    by (auto simp: sends dashboard_def Let_def frame_kind_defs split: if_splits)
  have ab: "apply_brake self' = apply_brake self2" and ag: "apply_gas self' = apply_gas self2"
    using lka_icon_keeps(1) [OF li] by auto
  show ?thesis
  proof (cases "frame mod 4 = 0")
    case True
    with gp have gp': "gas_regen_prep P ext enabled CS act t self1 = Some (self2, CS2, np)" by simp
    from True bg have bg': "brake_gas_frames P ext enabled CS3 frame np self2 = (CS4, sends2)" by simp
    from True da have "autoHoldActivated CS5 = autoHoldActivated CS4"
      by (auto simp: dashboard_def Let_def)
    moreover have "auto_hold enabled CS3 = auto_hold enabled CS"
      using gas_regen_prep_car_state [OF gp'] brake_indicator_car_state [OF bi]
      by (auto simp: auto_hold_same)
    ultimately show ?thesis
      using True brake_gas_frames_kind [OF bg'] fb gr ab ag cs' by auto
  next
    case False
    with gp bg da bi have "sends2 = []" "autoHoldActivated CS5 = autoHoldActivated CS"
      using brake_indicator_car_state [OF bi] by auto
    then show ?thesis using False fb gr cs' by simp
  qed
qed

theorem brake_and_gas_frames_per_tick_witness:
  "\<exists>sends self' CS'.
     update P0 ext0 0 self0 False CS0 4 act0 0 False False none = Some (sends, self', CS')
     \<and> (4 :: int) mod 4 = 0 \<and> \<not> auto_hold False CS0
     \<and> length (filter is_friction_brake sends) = 1 \<and> length (filter is_gas_regen sends) = 1
     \<and> \<not> autoHoldActivated CS'"
proof -
  obtain sends s cs where
    e: "update P0 ext0 0 self0 False CS0 4 act0 0 False False none = Some (sends, s, cs)"
    using update_returns_disabled by (metis prod_cases3)
  have a: "\<not> auto_hold False CS0" by (simp add: auto_hold_def CS0_def)
  show ?thesis
    using brake_and_gas_frames_per_tick [OF e] e a by auto
qed

subsection \<open>Ranges of the gas and brake commands\<close>

lemma py_round_between:
  assumes "real_of_int lo \<le> r" "r \<le> real_of_int hi"
  shows "lo \<le> py_round r \<and> py_round r \<le> hi"
proof -
  have f1: "real_of_int \<lfloor>r\<rfloor> \<le> r" and f2: "r < real_of_int \<lfloor>r\<rfloor> + 1" by linarith+
  have lo: "lo \<le> \<lfloor>r\<rfloor>" using assms(1) by (simp add: le_floor_iff)
  have hi: "\<lfloor>r\<rfloor> \<le> hi" using assms(2) f1 by linarith
  have up: "r - real_of_int \<lfloor>r\<rfloor> \<ge> 1 / 2 \<Longrightarrow> \<lfloor>r\<rfloor> + 1 \<le> hi"
  proof -
    assume "r - real_of_int \<lfloor>r\<rfloor> \<ge> 1 / 2"
    then have "real_of_int \<lfloor>r\<rfloor> < real_of_int hi" using assms(2) by linarith
    then show ?thesis by linarith
  qed
  show ?thesis
    using lo hi up by (auto simp: py_round_def Let_def)
qed

lemma interp_int_range:
  assumes "interp xv xp (map real_of_int V) = Some r"
    and "\<And>w. w \<in> set V \<Longrightarrow> lo \<le> w \<and> w \<le> hi"
  shows "real_of_int lo \<le> r \<and> r \<le> real_of_int hi"
  using assms(2) by (intro interp_range [OF assms(1)]) auto

lemma interp_lower:
  assumes "interp xv xp fp = Some r" and "\<And>w. w \<in> set fp \<Longrightarrow> lo \<le> w"
  shows "lo \<le> r"
proof -
  have "lo \<le> r \<and> r \<le> Max (set fp)"
    using assms(2) by (intro interp_range [OF assms(1)]) auto
  then show ?thesis ..
qed

lemma fold_max_ge: "(a :: real) \<le> fold max xs a"
  by (induction xs arbitrary: a) (auto intro: order_trans [OF max.cobounded2])

lemma lockout_factor_nonneg:
  assumes "lockout_factor T d ttc v_rel lead_v d_time trv = Some f" and "values_ok T"
  shows "0 \<le> f"
proof -
  from assms(1) obtain f1 f2 f3 f4 f5 where
    f1: "interp v_rel (v_rel_bp T) (v_rel_v T) = Some f1"
    and m: "py_max_list [f1, f2, f3, f4, f5] = Some f"
    by (auto simp: lockout_factor_def split: Option.bind_splits)
  have "0 \<le> f1"
    using assms(2) by (intro interp_lower [OF f1]) (auto simp: values_ok_def)
  moreover have "f1 \<le> f" using m fold_max_ge [of f1 "[f2, f3, f4, f5]"] by (simp add: py_max_list_def)
  ultimately show ?thesis by linarith
qed


lemma lead_lockout_factors_cases:
  assumes "lead_lockout_factors CS = Some (gf, bf)"
  shows "(gf = 0 \<or> (\<exists>d ttc v_rel lead_v d_time trv.
             lockout_factor (gas_lockout_tables CS) d ttc v_rel lead_v d_time trv = Some gf))
       \<and> (bf = 0 \<or> (\<exists>d ttc v_rel lead_v d_time trv.
             lockout_factor (brake_lockout_tables CS) d ttc v_rel lead_v d_time trv = Some bf))"
proof -
  define d where "d = coasting_lead_d CS"
  define v_rel where "v_rel = coasting_lead_v CS - CS_vEgo CS"
  define ttc where "ttc = min (if d > 0 \<and> v_rel < 0 then - d / v_rel else 100) 100"
  define d_time where "d_time = (if d > 0 \<and> CS_vEgo CS > 0 \<and> tr CS > 0 then d / CS_vEgo CS else 10)"
  define G where "G = lockout_tripped (gas_lockout_tables CS) d ttc v_rel (coasting_lead_v CS) d_time (tr CS)"
  define B where "B = lockout_tripped (brake_lockout_tables CS) d ttc v_rel (coasting_lead_v CS) d_time (tr CS)"
  define GF where "GF = lockout_factor (gas_lockout_tables CS) d ttc v_rel (coasting_lead_v CS) d_time (tr CS)"
  define BF where "BF = lockout_factor (brake_lockout_tables CS) d ttc v_rel (coasting_lead_v CS) d_time (tr CS)"
  have eq: "lead_lockout_factors CS =
      G \<bind> (\<lambda>g. if g then GF \<bind> (\<lambda>gf. B \<bind> (\<lambda>b. if b then BF \<bind> (\<lambda>bf. Some (gf, bf)) else Some (gf, 0)))
                  else Some (0, 0))"
    unfolding lead_lockout_factors_def Let_def G_def B_def GF_def BF_def d_time_def ttc_def v_rel_def d_def
    by (rule refl)
  from assms have "(gf = 0 \<or> GF = Some gf) \<and> (bf = 0 \<or> BF = Some bf)"
    unfolding eq by (auto split: Option.bind_splits if_splits)
  then show ?thesis unfolding GF_def BF_def by blast
qed

lemma lead_lockout_factors_nonneg:
  assumes "lead_lockout_factors CS = Some (gf, bf)" and "lockout_values_ok CS"
  shows "0 \<le> gf \<and> 0 \<le> bf"
  using lead_lockout_factors_cases [OF assms(1)] assms(2) lockout_factor_nonneg
  unfolding lockout_values_ok_def by blast

lemma over_speed_factor_unit:
  assumes "over_speed_factor CS table check_speed_ms = Some osf"
  shows "0 \<le> osf \<and> osf \<le> 1"
proof -
  from assms obtain b0 b1 where
    c: "(if check_speed_ms > 0 \<and> coasting_brake_over_speed_enabled CS
         then interp (CS_vEgo CS / check_speed_ms) [b0, b1] [0, 1] else Some 0) = Some osf"
    unfolding over_speed_factor_def by (auto split: Option.bind_splits)
  show ?thesis
  proof (cases "check_speed_ms > 0 \<and> coasting_brake_over_speed_enabled CS")
    case True
    with c have i: "interp (CS_vEgo CS / check_speed_ms) [b0, b1] [0, 1] = Some osf" by simp
    show ?thesis by (rule interp_range [OF i]) auto
  next
    case False
    with c show ?thesis by simp
  qed
qed


lemma coasting_adjust_between:
  fixes lo hi :: int
  assumes c: "coasting_adjust P ext CS gf bf (ag, ab) = Some (ag', ab')"
    and gf: "0 \<le> gf" and bf: "bf < 1"
    and ag: "real_of_int lo \<le> ag" "ag \<le> real_of_int hi"
    and z: "lo \<le> ZERO_GAS P" "ZERO_GAS P \<le> hi"
    and ab: "0 \<le> ab" "ab \<le> B"
  shows "real_of_int lo \<le> ag' \<and> ag' \<le> real_of_int hi \<and> 0 \<le> ab' \<and> ab' \<le> B"
proof -
  define Z where "Z = real_of_int (ZERO_GAS P)"
  have zl: "real_of_int lo \<le> Z" and zh: "Z \<le> real_of_int hi" using z by (simp_all add: Z_def)
  from c have brake: "ab' = ab \<or> (0 < ab \<and> (\<exists>osf. 0 \<le> osf \<and> osf \<le> 1 \<and> ab' = max (ab * bf) (ab * osf)))"
    unfolding coasting_adjust_def Let_def
    by (auto simp: py_max_list_def split: Option.bind_splits if_splits dest: over_speed_factor_unit)
  from c have gas: "ag' = ag \<or> (ag < Z \<and> gf < 1 \<and> (\<exists>osf. 0 \<le> osf \<and> osf \<le> 1
                       \<and> ag' = ag * gf + real_of_int (py_round (Z - osf * (Z - ag))) * (1 - gf)))"
    unfolding coasting_adjust_def Let_def Z_def
    by (auto split: Option.bind_splits if_splits dest: over_speed_factor_unit)
  have b: "0 \<le> ab' \<and> ab' \<le> B"
  proof -
    from brake show ?thesis
    proof
      assume "ab' = ab"
      then show ?thesis using ab by simp
    next
      assume "0 < ab \<and> (\<exists>osf. 0 \<le> osf \<and> osf \<le> 1 \<and> ab' = max (ab * bf) (ab * osf))"
      then obtain osf where p: "0 < ab" "0 \<le> osf" "osf \<le> 1" and e: "ab' = max (ab * bf) (ab * osf)"
        by blast
      have "ab * bf \<le> ab * 1" using p(1) bf by (intro mult_left_mono) auto
      moreover have "ab * osf \<le> ab * 1" using p by (intro mult_left_mono) auto
      moreover have "0 \<le> ab * osf" using p by simp
      ultimately show ?thesis using e ab by (auto simp: max_def)
    qed
  qed
  have g: "real_of_int lo \<le> ag' \<and> ag' \<le> real_of_int hi"
  proof -
    from gas show ?thesis
    proof
      assume "ag' = ag"
      then show ?thesis using ag by simp
    next
      assume "ag < Z \<and> gf < 1 \<and> (\<exists>osf. 0 \<le> osf \<and> osf \<le> 1
                \<and> ag' = ag * gf + real_of_int (py_round (Z - osf * (Z - ag))) * (1 - gf))"
      then obtain osf where p: "ag < Z" "gf < 1" "0 \<le> osf" "osf \<le> 1"
        and e: "ag' = ag * gf + real_of_int (py_round (Z - osf * (Z - ag))) * (1 - gf)"
        by blast
      define w where "w = Z - osf * (Z - ag)"
      have "osf * (Z - ag) \<le> 1 * (Z - ag)" using p by (intro mult_right_mono) auto
      moreover have "0 \<le> osf * (Z - ag)" using p by simp
      ultimately have "real_of_int lo \<le> w" "w \<le> real_of_int hi"
        using ag zh by (auto simp: w_def)
      then have r: "lo \<le> py_round w \<and> py_round w \<le> hi" by (rule py_round_between)
      define c where "c = real_of_int (py_round w)"
      have cl: "real_of_int lo \<le> c" and ch: "c \<le> real_of_int hi" using r by (simp_all add: c_def)
      have e': "ag' = (1 - gf) * (c - ag) + ag" unfolding e c_def w_def by (simp add: algebra_simps)
      have "0 \<le> 1 - gf" "1 - gf \<le> 1" using gf p(2) by auto
      from convex_between [OF this ag cl ch] show ?thesis unfolding e' .
    qed
  qed
  show ?thesis using b g by simp
qed


lemma one_pedal_step_result:
  assumes o: "one_pedal_step P ext CS pa th self = Some (self1, b)"
    and bv: "\<And>w. w \<in> set (BRAKE_LOOKUP_V P) \<Longrightarrow> 0 \<le> w \<and> w \<le> B"
    and b0: "0 \<le> B"
  shows "0 \<le> b \<and> b \<le> real_of_int B
       \<and> (one_pedal_mode_active CS \<longrightarrow> ONE_PEDAL_MAX_DECEL \<le> one_pedal_decel self1)
       \<and> (\<not> one_pedal_mode_active CS \<longrightarrow> one_pedal_decel self1 = one_pedal_decel self \<and> b = 0)"
proof (cases "one_pedal_mode_active CS")
  case True
  with o obtain lim where
    i: "interp (max lim ONE_PEDAL_MAX_DECEL) (BRAKE_LOOKUP_BP P) (map real_of_int (BRAKE_LOOKUP_V P))
          = Some b"
    and d: "one_pedal_decel self1 = max lim ONE_PEDAL_MAX_DECEL"
    unfolding one_pedal_step_def Let_def
    by (auto split: Option.bind_splits prod.splits)
  have "real_of_int 0 \<le> b \<and> b \<le> real_of_int B"
    using bv by (intro interp_int_range [OF i]) auto
  then show ?thesis using True d by simp
next
  case False
  with o have "b = 0" "one_pedal_decel self1 = one_pedal_decel self"
    unfolding one_pedal_step_def by auto
  then show ?thesis using False b0 by simp
qed


lemma tables_ok_brake:
  assumes "tables_ok P"
  shows "0 \<le> hd (BRAKE_LOOKUP_V P)"
    and "\<And>w. w \<in> set (BRAKE_LOOKUP_V P) \<Longrightarrow> 0 \<le> w \<and> w \<le> hd (BRAKE_LOOKUP_V P)"
proof -
  have "hd (BRAKE_LOOKUP_V P) \<in> set (BRAKE_LOOKUP_V P)" using assms by (simp add: tables_ok_def)
  then show "0 \<le> hd (BRAKE_LOOKUP_V P)" using assms by (simp add: tables_ok_def)
  show "\<And>w. w \<in> set (BRAKE_LOOKUP_V P) \<Longrightarrow> 0 \<le> w \<and> w \<le> hd (BRAKE_LOOKUP_V P)"
    using assms by (simp add: tables_ok_def)
qed

lemma tables_ok_gas:
  assumes "tables_ok P"
  shows "MAX_ACC_REGEN P \<le> last (GAS_LOOKUP_V P)"
    and "MAX_ACC_REGEN P \<le> ZERO_GAS P" and "ZERO_GAS P \<le> last (GAS_LOOKUP_V P)"
    and "\<And>w. w \<in> set (GAS_LOOKUP_V P) \<Longrightarrow> MAX_ACC_REGEN P \<le> w \<and> w \<le> last (GAS_LOOKUP_V P)"
  using assms by (auto simp: tables_ok_def)

lemma one_pedal_gas_between:
  assumes "tables_ok P"
  shows "MAX_ACC_REGEN P \<le> one_pedal_gas P CS \<and> one_pedal_gas P CS \<le> last (GAS_LOOKUP_V P)"
  using tables_ok_gas [OF assms] by (auto simp: one_pedal_gas_def)

lemma mode_adjust_result:
  assumes m: "mode_adjust P ext CS th gf bf self ag0 ab0 = Some (s2, ag, ab)"
    and tok: "tables_ok P"
    and f: "0 \<le> gf" "0 \<le> bf"
    and g0: "real_of_int (MAX_ACC_REGEN P) \<le> ag0" "ag0 \<le> real_of_int (last (GAS_LOOKUP_V P))"
    and a0: "0 \<le> ab0" "ab0 \<le> real_of_int (hd (BRAKE_LOOKUP_V P))"
  shows "real_of_int (MAX_ACC_REGEN P) \<le> ag \<and> ag \<le> real_of_int (last (GAS_LOOKUP_V P))
       \<and> 0 \<le> ab \<and> ab \<le> real_of_int (hd (BRAKE_LOOKUP_V P))
       \<and> (one_pedal_mode_active CS \<longrightarrow> ONE_PEDAL_MAX_DECEL \<le> one_pedal_decel s2)
       \<and> (\<not> one_pedal_mode_active CS \<longrightarrow> one_pedal_decel s2 = one_pedal_decel self)"
proof (cases "one_pedal_mode_active CS \<or> coast_one_pedal_mode_active CS")
  case True
  with m obtain pa opb where
    o: "one_pedal_step P ext CS pa th self = Some (s2, opb)"
    and ag: "ag = real_of_int (one_pedal_gas P CS)"
    and ab: "ab = (if \<not> one_pedal_mode_op_braking_allowed CS \<or> opb > ab0 then opb else ab0)"
    unfolding mode_adjust_def by (auto split: Option.bind_splits prod.splits)
  have r: "0 \<le> opb \<and> opb \<le> real_of_int (hd (BRAKE_LOOKUP_V P))
       \<and> (one_pedal_mode_active CS \<longrightarrow> ONE_PEDAL_MAX_DECEL \<le> one_pedal_decel s2)
       \<and> (\<not> one_pedal_mode_active CS \<longrightarrow> one_pedal_decel s2 = one_pedal_decel self \<and> opb = 0)"
    using tables_ok_brake [OF tok] by (intro one_pedal_step_result [OF o]) auto
  show ?thesis
    using r a0 one_pedal_gas_between [OF tok, of CS] by (auto simp: ag ab)
next
  case no_pedal: False
  show ?thesis
  proof (cases "coasting_enabled CS \<and> bf < 1")
    case True
    with m no_pedal obtain c: "coasting_adjust P ext CS gf bf (ag0, ab0) = Some (ag, ab)"
      and s: "s2 = self"
      unfolding mode_adjust_def by (auto split: Option.bind_splits prod.splits)
    have "real_of_int (MAX_ACC_REGEN P) \<le> ag \<and> ag \<le> real_of_int (last (GAS_LOOKUP_V P))
          \<and> 0 \<le> ab \<and> ab \<le> real_of_int (hd (BRAKE_LOOKUP_V P))"
      using True f g0 a0 tables_ok_gas(2,3) [OF tok]
      by (intro coasting_adjust_between [OF c]) auto
    then show ?thesis using s no_pedal by simp
  next
    case no_coast: False
    show ?thesis
    proof (cases "no_friction_braking CS \<and> bf < 1")
      case True
      with m no_pedal no_coast have s: "s2 = self" and ag: "ag = ag0"
        and ab: "ab = ab0 \<or> (0 < ab0 \<and> ab = ab0 * bf)"
        unfolding mode_adjust_def by (auto split: if_splits)
      have "0 \<le> ab0 * bf" using a0(1) f(2) by simp
      moreover have "ab0 * bf \<le> ab0 * 1" using True a0(1) by (intro mult_left_mono) auto
      ultimately have "0 \<le> ab0 * bf \<and> ab0 * bf \<le> real_of_int (hd (BRAKE_LOOKUP_V P))"
        using a0(2) by simp
      then show ?thesis using s ag ab g0 a0 no_pedal by auto
    next
      case False
      with m no_pedal no_coast have "s2 = self" "ag = ag0" "ab = ab0"
        unfolding mode_adjust_def by auto
      then show ?thesis using g0 a0 no_pedal by simp
    qed
  qed
qed

lemma longitudinal_result:
  assumes l: "longitudinal P ext CS act t self = Some (self1, CS1, np)"
    and tok: "tables_ok P" and lok: "lockout_values_ok CS"
  shows "MAX_ACC_REGEN P \<le> apply_gas self1 \<and> apply_gas self1 \<le> last (GAS_LOOKUP_V P)
       \<and> 0 \<le> apply_brake self1 \<and> apply_brake self1 \<le> hd (BRAKE_LOOKUP_V P)
       \<and> (one_pedal_mode_active CS \<longrightarrow> ONE_PEDAL_MAX_DECEL \<le> one_pedal_decel self1)
       \<and> (\<not> one_pedal_mode_active CS \<and> \<not> coast_one_pedal_mode_active CS
            \<longrightarrow> one_pedal_decel self1 = aEgo (out CS))
       \<and> (\<not> one_pedal_mode_active CS \<and> coast_one_pedal_mode_active CS
            \<longrightarrow> one_pedal_decel self1 = one_pedal_decel self)"
proof -
  from l obtain bx ag0 ab0 gf bf s2 ag ab where
    ag0: "interp (accelPitchCompensated act) (GAS_LOOKUP_BP P) (map real_of_int (GAS_LOOKUP_V P)) = Some ag0"
    and ab0: "interp bx (BRAKE_LOOKUP_BP P) (map real_of_int (BRAKE_LOOKUP_V P)) = Some ab0"
    and lf: "lead_lockout_factors CS = Some (gf, bf)"
    and m: "mode_adjust P ext CS (threshold_accel_of ext CS t self) gf bf (one_pedal_reset ext CS self)
              ag0 ab0 = Some (s2, ag, ab)"
    and s1: "self1 = s2\<lparr>apply_gas := py_round ag, apply_brake := py_round ab\<rparr>"
    unfolding longitudinal_def Let_def
    by (auto split: Option.bind_splits prod.splits)
  have f: "0 \<le> gf" "0 \<le> bf" using lead_lockout_factors_nonneg [OF lf lok] by auto
  have g0: "real_of_int (MAX_ACC_REGEN P) \<le> ag0 \<and> ag0 \<le> real_of_int (last (GAS_LOOKUP_V P))"
    using tables_ok_gas(4) [OF tok] by (intro interp_int_range [OF ag0]) auto
  have a0: "real_of_int 0 \<le> ab0 \<and> ab0 \<le> real_of_int (hd (BRAKE_LOOKUP_V P))"
    using tables_ok_brake(2) [OF tok] by (intro interp_int_range [OF ab0]) auto
  have r: "real_of_int (MAX_ACC_REGEN P) \<le> ag \<and> ag \<le> real_of_int (last (GAS_LOOKUP_V P))
       \<and> 0 \<le> ab \<and> ab \<le> real_of_int (hd (BRAKE_LOOKUP_V P))
       \<and> (one_pedal_mode_active CS \<longrightarrow> ONE_PEDAL_MAX_DECEL \<le> one_pedal_decel s2)
       \<and> (\<not> one_pedal_mode_active CS
            \<longrightarrow> one_pedal_decel s2 = one_pedal_decel (one_pedal_reset ext CS self))"
    using f g0 a0 by (intro mode_adjust_result [OF m tok]) auto
  have gas: "MAX_ACC_REGEN P \<le> py_round ag \<and> py_round ag \<le> last (GAS_LOOKUP_V P)"
    using r by (intro py_round_between) auto
  have brk: "0 \<le> py_round ab \<and> py_round ab \<le> hd (BRAKE_LOOKUP_V P)"
    using r by (intro py_round_between) auto
  show ?thesis
    using gas brk r by (auto simp: s1 one_pedal_reset_def)
qed

lemma gas_regen_prep_result:
  assumes g: "gas_regen_prep P ext enabled CS act t self = Some (self1, CS1, np)"
    and tok: "tables_ok P" and lok: "lockout_values_ok CS"
  shows "MAX_ACC_REGEN P \<le> apply_gas self1 \<and> apply_gas self1 \<le> last (GAS_LOOKUP_V P)
       \<and> 0 \<le> apply_brake self1 \<and> apply_brake self1 \<le> hd (BRAKE_LOOKUP_V P)
       \<and> (enabled \<and> \<not> pause_long_on_gas_press CS \<and> one_pedal_mode_active CS
            \<longrightarrow> ONE_PEDAL_MAX_DECEL \<le> one_pedal_decel self1)
       \<and> (\<not> enabled \<or> pause_long_on_gas_press CS
           \<or> (\<not> one_pedal_mode_active CS \<and> \<not> coast_one_pedal_mode_active CS)
            \<longrightarrow> one_pedal_decel self1 = aEgo (out CS))"
proof (cases "\<not> enabled \<or> pause_long_on_gas_press CS")
  case True
  with g have "self1 = self\<lparr>apply_gas := MAX_ACC_REGEN P, apply_brake := 0,
                      one_pedal_pid := pid_reset ext (one_pedal_pid self),
                      one_pedal_decel := aEgo (out CS), one_pedal_decel_in := aEgo (out CS)\<rparr>"
    by (auto simp: gas_regen_prep_def)
  then show ?thesis
    using True tables_ok_gas(1) [OF tok] tables_ok_brake(1) [OF tok] by auto
next
  case False
  with g obtain CSm where l: "longitudinal P ext CS act t self = Some (self1, CSm, np)"
    by (auto simp: gas_regen_prep_def split: Option.bind_splits)
  show ?thesis
    using longitudinal_result [OF l tok lok] False by auto
qed

text \<open>
  Claim C2, as the code has it. For a call that returns, with lookup tables of the declared
  shape and lockout values that are not negative: on a tick with \<open>frame % 4 == 0\<close> the
  stored \<open>apply_gas\<close> lies in \<open>[MAX_ACC_REGEN, GAS_LOOKUP_V[-1]]\<close> and \<open>apply_brake\<close> in
  \<open>[0, BRAKE_LOOKUP_V[0]]\<close>; \<open>one_pedal_decel\<close> is at least -3.5 when the one-pedal branch
  ran (enabled, not pausing, \<open>one_pedal_mode_active\<close>), and it is \<open>CS.out.aEgo\<close>, whatever
  that is, when not enabled, when pausing, or outside both one-pedal modes. On the other
  ticks the three values are left as they were.
\<close>

theorem gas_brake_ranges_after_tick:
  assumes u: "update P ext t self enabled CS frame act hud_v_cruise hud_show_lanes hud_show_car hud_alert
             = Some (sends, self', CS')"
    and tok: "tables_ok P" and lok: "lockout_values_ok CS"
  shows "(frame mod 4 = 0 \<longrightarrow>
            MAX_ACC_REGEN P \<le> apply_gas self' \<and> apply_gas self' \<le> last (GAS_LOOKUP_V P)
            \<and> 0 \<le> apply_brake self' \<and> apply_brake self' \<le> hd (BRAKE_LOOKUP_V P)
            \<and> (enabled \<and> \<not> pause_long_on_gas_press CS \<and> one_pedal_mode_active CS
                 \<longrightarrow> ONE_PEDAL_MAX_DECEL \<le> one_pedal_decel self')
            \<and> (\<not> enabled \<or> pause_long_on_gas_press CS
                \<or> (\<not> one_pedal_mode_active CS \<and> \<not> coast_one_pedal_mode_active CS)
                 \<longrightarrow> one_pedal_decel self' = aEgo (out CS)))
       \<and> (frame mod 4 \<noteq> 0 \<longrightarrow>
            apply_gas self' = apply_gas self \<and> apply_brake self' = apply_brake self
            \<and> one_pedal_decel self' = one_pedal_decel self)"
proof -
  from u obtain self1 sends1 self2 CS2 np CS5 sends6 where
    st: "steering P ext enabled CS frame act self = Some (self1, sends1)"
    and gp: "(if frame mod 4 = 0 then gas_regen_prep P ext enabled CS act t self1
              else Some (self1, CS, 0)) = Some (self2, CS2, np)"
    and li: "lka_icon P CS5 frame act hud_alert self2 = Some (self', sends6)"
    by (rule update_stages)
  have k: "apply_gas self' = apply_gas self2 \<and> apply_brake self' = apply_brake self2
           \<and> one_pedal_decel self' = one_pedal_decel self2"
    using lka_icon_keeps(1) [OF li] by auto
  show ?thesis
  proof (cases "frame mod 4 = 0")
    case True
    with gp have "gas_regen_prep P ext enabled CS act t self1 = Some (self2, CS2, np)" by simp
    from gas_regen_prep_result [OF this tok lok] show ?thesis using True k by simp
  next
    case False
    with gp have "self2 = self1" by simp
    then show ?thesis using False k steering_keeps [OF st] by simp
  qed
qed

lemma P0_tables_ok: "tables_ok P0"
  by (simp add: tables_ok_def P0_def)

lemma CS_one_pedal_lockout_ok: "lockout_values_ok CS_one_pedal"
  by (simp add: lockout_values_ok_def values_ok_def gas_lockout_tables_def brake_lockout_tables_def
      CS_one_pedal_def CS0_def)

theorem gas_brake_ranges_after_tick_witness:
  "tables_ok P0 \<and> lockout_values_ok CS_one_pedal
   \<and> (\<exists>sends self' CS'.
         update P0 ext0 (1 / 10) self0 True CS_one_pedal 4 act0 0 False False none
           = Some (sends, self', CS')
         \<and> 1404 \<le> apply_gas self' \<and> apply_gas self' \<le> 3072
         \<and> 0 \<le> apply_brake self' \<and> apply_brake self' \<le> 350
         \<and> - (35 / 10) \<le> one_pedal_decel self')"
proof -
  obtain sends s cs where
    e: "update P0 ext0 (1 / 10) self0 True CS_one_pedal 4 act0 0 False False none = Some (sends, s, cs)"
    using update_returns_one_pedal by (metis prod_cases3)
  show ?thesis
    using gas_brake_ranges_after_tick [OF e P0_tables_ok CS_one_pedal_lockout_ok] e
      P0_tables_ok CS_one_pedal_lockout_ok
    by (simp add: P0_def CS_one_pedal_def CS0_def ONE_PEDAL_MAX_DECEL_def)
qed


text \<open>
  Claim C2, as stated, fails: not enabled, with the car decelerating at 5 m/s/s, the tick
  stores \<open>one_pedal_decel = -5\<close>, below the floor of -3.5, which line 187 applies in the
  one-pedal branch only.
\<close>

theorem one_pedal_decel_below_floor:
  "update P0 ext0 0 self0 False CS0 4 act0 0 False False none \<noteq> None
   \<and> one_pedal_decel (fst (snd (the (update P0 ext0 0 self0 False CS0 4 act0 0 False False none))))
       = - 5
   \<and> \<not> ONE_PEDAL_MAX_DECEL
         \<le> one_pedal_decel (fst (snd (the (update P0 ext0 0 self0 False CS0 4 act0 0 False False none))))"
  by (simp add: stage_defs prim_defs input_defs Let_def ONE_PEDAL_MAX_DECEL_def)

end
